theory Spec2Isabelle
  imports Complex_Main "HOL-Library.Sublist" "HOL-Library.AList"
begin

section \<open>JavaScript values\<close>

text \<open>
  The session, token and client code works on untyped run-time values: whatever
  \<^verbatim>\<open>JSON.parse\<close> returns is cast to the TypeScript interface without any check. The
  model therefore keeps values as the parsed data. A variable that can be
  \<^verbatim>\<open>undefined\<close> is a \<open>json option\<close> with \<open>None\<close> for \<^verbatim>\<open>undefined\<close>; \<open>JNull\<close> is
  \<^verbatim>\<open>null\<close>. An object is the list of its own properties, with distinct keys, in the
  order in which the engine lists them.
\<close>

datatype json =
    JNull
  | JBool bool
  | JNum real
  | JStr string
  | JArr "json list"
  | JObj "(string \<times> json) list"

text \<open>An exception value: \<open>JsError name message\<close> is an instance of \<^verbatim>\<open>Error\<close>.\<close>

datatype exn = JsError string string | NonError

datatype 'a res = Ok 'a | Throw exn

text \<open>Truthiness, as \<^verbatim>\<open>!v\<close>, \<^verbatim>\<open>a && b\<close> and \<^verbatim>\<open>a || b\<close> test it.\<close>

fun truthy :: "json \<Rightarrow> bool" where
  "truthy JNull = False"
| "truthy (JBool b) = b"
| "truthy (JNum x) = (x \<noteq> 0)"
| "truthy (JStr s) = (s \<noteq> [])"
| "truthy (JArr xs) = True"
| "truthy (JObj kvs) = True"

fun truthy_opt :: "json option \<Rightarrow> bool" where
  "truthy_opt None = False"
| "truthy_opt (Some v) = truthy v"

text \<open>
  \<^verbatim>\<open>v.k\<close> for a value that is neither \<^verbatim>\<open>null\<close> nor \<^verbatim>\<open>undefined\<close>. The keys the code
  reads (\<^verbatim>\<open>app_metadata\<close>, \<^verbatim>\<open>project_id\<close>, \<^verbatim>\<open>expiresAt\<close>, \<^verbatim>\<open>expires_at\<close>,
  \<^verbatim>\<open>accessToken\<close>, \<^verbatim>\<open>access_token\<close>, \<^verbatim>\<open>refreshToken\<close>, \<^verbatim>\<open>success\<close>, \<^verbatim>\<open>session\<close>,
  \<^verbatim>\<open>data\<close>, \<^verbatim>\<open>error\<close>, \<^verbatim>\<open>message\<close>) are not properties of any prototype, so on a
  string, number, boolean or array they are \<^verbatim>\<open>undefined\<close>.
\<close>

fun get_prop :: "json \<Rightarrow> string \<Rightarrow> json option" where
  "get_prop (JObj kvs) k = map_of kvs k"
| "get_prop v k = None"

text \<open>
  \<^verbatim>\<open>v.k\<close> in general: a \<^verbatim>\<open>TypeError\<close> on \<^verbatim>\<open>null\<close> and \<^verbatim>\<open>undefined\<close>. The wording of its
  message is the engine's; the model fixes one.
\<close>

fun js_member :: "json option \<Rightarrow> string \<Rightarrow> json option res" where
  "js_member None k = Throw (JsError ''TypeError'' ''Cannot read properties of undefined'')"
| "js_member (Some JNull) k = Throw (JsError ''TypeError'' ''Cannot read properties of null'')"
| "js_member (Some v) k = Ok (get_prop v k)"

text \<open>Optional chaining \<^verbatim>\<open>v?.k\<close>.\<close>

fun opt_chain :: "json option \<Rightarrow> string \<Rightarrow> json option" where
  "opt_chain None k = None"
| "opt_chain (Some JNull) k = None"
| "opt_chain (Some v) k = get_prop v k"

text \<open>\<^verbatim>\<open>s.startsWith(p)\<close>.\<close>

definition startsWith :: "string \<Rightarrow> string \<Rightarrow> bool" where
  "startsWith s p = (take (length p) s = p)"

section \<open>Route guard\<close>

subsection \<open>The SDK component (packages/sdk-react/src/components/index.tsx)\<close>

text \<open>What a component returns, and the redirect it triggers while doing so.\<close>

datatype view = Children | LoadingComponent | DefaultLoading | Nothing

datatype redirect = NoRedirect | OnRedirect string | SetLocation string | RouterPush string

text \<open>
  The value of \<^verbatim>\<open>useAuth()\<close> that the guards read. The specification's states are
  \<open>Loading\<close> (\<open>isLoading\<close>), \<open>Authenticated\<close> (not loading, authenticated) and
  \<open>Anonymous\<close> (not loading, not authenticated).
\<close>

record auth_state =
  isAuthenticated :: bool
  isLoading :: bool

text \<open>
  The props. An optional prop is an option, \<open>None\<close> when the caller leaves it out;
  \<open>loadingComponent\<close> and \<open>onRedirect\<close> only matter through their truthiness.
  \<open>has_window\<close> is \<^verbatim>\<open>typeof window !== 'undefined'\<close>.
\<close>

record LayoutProtectionProps =
  publicRoutes :: "string list option"
  redirectTo :: "string option"
  authenticatedRedirect :: "string option"
  loadingComponent :: bool
  onRedirect :: bool

definition do_redirect :: "bool \<Rightarrow> bool \<Rightarrow> string \<Rightarrow> redirect" where
  "do_redirect has_onRedirect has_window path =
     (if has_onRedirect then OnRedirect path
      else if has_window then SetLocation path
      else NoRedirect)"

definition loading_view :: "bool \<Rightarrow> view" where
  "loading_view has_loadingComponent =
     (if has_loadingComponent then LoadingComponent else DefaultLoading)"

definition redirectTo_of :: "string option \<Rightarrow> string" where
  "redirectTo_of redirectTo_prop = (case redirectTo_prop of None \<Rightarrow> ''/login'' | Some p \<Rightarrow> p)"

definition ProtectedRoute :: "bool \<Rightarrow> auth_state \<Rightarrow> bool \<Rightarrow> string option \<Rightarrow> bool \<Rightarrow> view \<times> redirect" where
  "ProtectedRoute has_window auth has_loadingComponent redirectTo_prop has_onRedirect =
     (if isLoading auth then (loading_view has_loadingComponent, NoRedirect)
      else if \<not> isAuthenticated auth then
        (Nothing, do_redirect has_onRedirect has_window (redirectTo_of redirectTo_prop))
      else (Children, NoRedirect))"

definition isPublicRoute :: "string list \<Rightarrow> string \<Rightarrow> bool" where
  "isPublicRoute routes pathname =
     list_ex (\<lambda>route.
        if route = ''/'' then pathname = ''/''
        else pathname = route \<or> startsWith pathname (route @ ''/'')) routes"

text \<open>The default values of the destructured props.\<close>

definition publicRoutes_of :: "LayoutProtectionProps \<Rightarrow> string list" where
  "publicRoutes_of props = (case publicRoutes props of None \<Rightarrow> [] | Some rs \<Rightarrow> rs)"

definition authenticatedRedirect_of :: "LayoutProtectionProps \<Rightarrow> string" where
  "authenticatedRedirect_of props =
     (case authenticatedRedirect props of None \<Rightarrow> ''/home'' | Some p \<Rightarrow> p)"

definition LayoutProtection :: "bool \<Rightarrow> auth_state \<Rightarrow> LayoutProtectionProps \<Rightarrow> string \<Rightarrow> view \<times> redirect" where
  "LayoutProtection has_window auth props pathname =
     (let public = isPublicRoute (publicRoutes_of props) pathname in
      if isLoading auth then (loading_view (loadingComponent props), NoRedirect)
      else if public \<and> isAuthenticated auth \<and> authenticatedRedirect_of props \<noteq> [] then
        (Nothing, do_redirect (onRedirect props) has_window (authenticatedRedirect_of props))
      else if public then (Children, NoRedirect)
      else ProtectedRoute has_window auth (loadingComponent props) (redirectTo props)
             (onRedirect props))"

subsection \<open>The application's component (layout-protection.tsx, protected-route.tsx)\<close>

definition PUBLIC_ROUTES :: "string list" where
  "PUBLIC_ROUTES = [''/'', ''/login'', ''/signup'', ''/forgot-password'']"

definition AUTHENTICATED_HOME :: string where
  "AUTHENTICATED_HOME = ''/home''"

text \<open>
  The application's \<^verbatim>\<open>useAuth()\<close> gives \<^verbatim>\<open>user\<close> and \<^verbatim>\<open>loading\<close>; \<open>isAuthenticated\<close>
  stands for \<^verbatim>\<open>user\<close> being set. The redirect is the \<^verbatim>\<open>router.push\<close> of the effect
  that runs after the render.
\<close>

definition ProtectedRoute_app :: "auth_state \<Rightarrow> string option \<Rightarrow> view \<times> redirect" where
  "ProtectedRoute_app auth redirectTo_prop =
     (let effect = (if isLoading auth then NoRedirect
                    else if \<not> isAuthenticated auth
                      then RouterPush (redirectTo_of redirectTo_prop)
                    else NoRedirect)
      in
      if isLoading auth then (DefaultLoading, effect)
      else if \<not> isAuthenticated auth then (Nothing, effect)
      else (Children, effect))"

definition route_matches_app :: "string list \<Rightarrow> string \<Rightarrow> bool" where
  "route_matches_app routes pathname =
     list_ex (\<lambda>route.
        pathname = route \<or> (route \<noteq> ''/'' \<and> startsWith pathname (route @ ''/''))) routes"

definition isPublicRoute_app :: "string \<Rightarrow> bool" where
  "isPublicRoute_app pathname = route_matches_app PUBLIC_ROUTES pathname"

definition LayoutProtection_app :: "auth_state \<Rightarrow> string \<Rightarrow> view \<times> redirect" where
  "LayoutProtection_app auth pathname =
     (let public = isPublicRoute_app pathname;
          effect = (if isLoading auth then NoRedirect
                    else if isAuthenticated auth \<and> public \<and> pathname \<noteq> ''/''
                      then RouterPush AUTHENTICATED_HOME
                    else NoRedirect)
      in
      if isLoading auth then (DefaultLoading, effect)
      else if public then
        (if isAuthenticated auth \<and> pathname \<noteq> ''/'' then (Nothing, effect)
         else (Children, effect))
      else (case ProtectedRoute_app auth None of
              (v, e) \<Rightarrow> (v, if effect = NoRedirect then e else effect)))"

text \<open>A redirect to a path, through whichever channel.\<close>

definition redirects_to :: "redirect \<Rightarrow> string \<Rightarrow> bool" where
  "redirects_to r p = (r = OnRedirect p \<or> r = SetLocation p \<or> r = RouterPush p)"

section \<open>Platform functions\<close>

text \<open>
  The built-ins the code calls are parameters of the model; a thrown exception is a
  \<open>Throw\<close>.
  \<^item> \<open>atob\<close>: base64 decoding, throwing on a string that is not base64;
  \<^item> \<open>JSON_parse\<close>: \<^verbatim>\<open>JSON.parse\<close>, throwing a \<^verbatim>\<open>SyntaxError\<close> on text that is not JSON;
  \<^item> \<open>JSON_stringify\<close>: \<^verbatim>\<open>JSON.stringify\<close> on a value built of JSON data;
  \<^item> \<open>to_string\<close>: the conversion to a string of a value that is not a string, as a
    template literal and \<^verbatim>\<open>localStorage.setItem\<close> apply it;
  \<^item> \<open>date_time\<close>: \<^verbatim>\<open>new Date(v).getTime()\<close> in milliseconds, \<open>None\<close> for an invalid
    date (\<^verbatim>\<open>NaN\<close>);
  \<^item> \<open>to_number\<close>: the conversion to a number of a value that is not a number, as
    \<^verbatim>\<open>*\<close> applies it, \<open>None\<close> for \<^verbatim>\<open>NaN\<close>.
\<close>

record platform =
  atob :: "string \<Rightarrow> string res"
  JSON_parse :: "string \<Rightarrow> json res"
  JSON_stringify :: "json \<Rightarrow> string"
  to_string :: "json option \<Rightarrow> string"
  date_time :: "json option \<Rightarrow> int option"
  to_number :: "json \<Rightarrow> real option"

section \<open>Token decoder\<close>

text \<open>\<^verbatim>\<open>s.split(d)\<close> for a one-character separator.\<close>

fun split_on :: "char \<Rightarrow> string \<Rightarrow> string list" where
  "split_on d [] = [[]]"
| "split_on d (c # cs) =
     (if c = d then [] # split_on d cs
      else (case split_on d cs of
              [] \<Rightarrow> [[c]]
            | p # ps \<Rightarrow> (c # p) # ps))"

text \<open>\<^verbatim>\<open>s.replace(/a/g, 'b')\<close> for single characters.\<close>

definition replace_all :: "char \<Rightarrow> char \<Rightarrow> string \<Rightarrow> string" where
  "replace_all a b s = map (\<lambda>c. if c = a then b else c) s"

text \<open>
  \<^verbatim>\<open>decodeJwtPayload\<close>, the same function in the SDK's auth service and in the
  application's supabase.ts. The argument is the run-time value passed as the token:
  on anything but a string \<^verbatim>\<open>token.split\<close> is not a function, a \<^verbatim>\<open>TypeError\<close> inside the
  \<^verbatim>\<open>try\<close>. The first definition is the body of the \<^verbatim>\<open>try\<close>, the second adds the
  \<^verbatim>\<open>catch\<close>.
\<close>

definition decodeJwtPayload_try :: "platform \<Rightarrow> json option \<Rightarrow> json res" where
  "decodeJwtPayload_try P token =
     (case token of
        Some (JStr t) \<Rightarrow>
          (let parts = split_on CHR ''.'' t in
           if length parts \<noteq> 3 then Ok JNull
           else
             (let base64 = replace_all CHR ''_'' CHR ''/'' (replace_all CHR ''-'' CHR ''+'' (parts ! 1)) in
              case atob P base64 of
                Throw e \<Rightarrow> Throw e
              | Ok payload \<Rightarrow> JSON_parse P payload))
      | _ \<Rightarrow> Throw (JsError ''TypeError'' ''token.split is not a function''))"

definition decodeJwtPayload :: "platform \<Rightarrow> json option \<Rightarrow> json res" where
  "decodeJwtPayload P token =
     (case decodeJwtPayload_try P token of
        Ok payload \<Rightarrow> Ok payload
      | Throw e \<Rightarrow> Ok JNull)"

text \<open>\<^verbatim>\<open>getProjectIdFromToken\<close> of the SDK's auth service; \<open>None\<close> is \<^verbatim>\<open>null\<close>.\<close>

definition getProjectIdFromToken :: "platform \<Rightarrow> json option \<Rightarrow> string option res" where
  "getProjectIdFromToken P accessToken =
     (case decodeJwtPayload P accessToken of
        Throw e \<Rightarrow> Throw e
      | Ok payload \<Rightarrow>
          if \<not> truthy payload then Ok None
          else
            (let appMetadata = get_prop payload ''app_metadata'' in
             case opt_chain appMetadata ''project_id'' of
               Some (JStr s) \<Rightarrow> if s \<noteq> [] then Ok (Some s) else Ok None
             | _ \<Rightarrow> Ok None))"

text \<open>\<^verbatim>\<open>getProjectIdFromToken\<close> of the application's supabase.ts.\<close>

definition getProjectIdFromToken_app :: "platform \<Rightarrow> json option \<Rightarrow> string option res" where
  "getProjectIdFromToken_app P accessToken =
     (case decodeJwtPayload P accessToken of
        Throw e \<Rightarrow> Throw e
      | Ok payload \<Rightarrow>
          if \<not> truthy payload then Ok None
          else
            (let appMetadata = get_prop payload ''app_metadata'' in
             case opt_chain appMetadata ''project_id'' of
               Some (JStr s) \<Rightarrow> Ok (Some s)
             | _ \<Rightarrow> Ok None))"

section \<open>Identity validator\<close>

text \<open>
  \<^verbatim>\<open>validateProjectId\<close> of supabase.ts. \<open>expectedProjectId\<close> is the value of the
  environment variable \<^verbatim>\<open>NEXT_PUBLIC_PROJECT_ID\<close>, \<open>None\<close> when it is not set.
\<close>

definition validateProjectId :: "platform \<Rightarrow> string option \<Rightarrow> json option \<Rightarrow> bool res" where
  "validateProjectId P expectedProjectId accessToken =
     (if expectedProjectId = None \<or> expectedProjectId = Some [] \<or> expectedProjectId = Some ''dev''
      then Ok True
      else
        (case getProjectIdFromToken_app P accessToken of
           Throw e \<Rightarrow> Throw e
         | Ok tokenProjectId \<Rightarrow>
             if tokenProjectId = None \<or> tokenProjectId = Some [] then Ok True
             else Ok (tokenProjectId = expectedProjectId)))"

text \<open>
  \<^verbatim>\<open>validateSessionProject\<close> of the SDK's provider; \<open>projectId\<close> is \<^verbatim>\<open>config.projectId\<close>
  and the session is the run-time value it is called with.
\<close>

definition validateSessionProject :: "platform \<Rightarrow> string \<Rightarrow> json option \<Rightarrow> bool res" where
  "validateSessionProject P projectId sessionToValidate =
     (if projectId = [] \<or> projectId = ''dev'' then Ok True
      else
        (case js_member sessionToValidate ''accessToken'' of
           Throw e \<Rightarrow> Throw e
         | Ok accessToken \<Rightarrow>
             (case getProjectIdFromToken P accessToken of
                Throw e \<Rightarrow> Throw e
              | Ok tokenProjectId \<Rightarrow>
                  if tokenProjectId = None \<or> tokenProjectId = Some [] then Ok True
                  else if tokenProjectId \<noteq> Some projectId then Ok False
                  else Ok True)))"

subsection \<open>The validator as the specification words it\<close>

text \<open>
  The tenant claim decoded from a token: the \<^verbatim>\<open>app_metadata.project_id\<close> of the decoded
  claims, when it is present and a string.
\<close>

definition tenant_claim :: "platform \<Rightarrow> string \<Rightarrow> string option" where
  "tenant_claim P token =
     (case decodeJwtPayload P (Some (JStr token)) of
        Ok (JObj claims) \<Rightarrow>
          (case map_of claims ''app_metadata'' of
             Some (JObj metadata) \<Rightarrow>
               (case map_of metadata ''project_id'' of
                  Some (JStr s) \<Rightarrow> Some s
                | _ \<Rightarrow> None)
           | _ \<Rightarrow> None)
      | _ \<Rightarrow> None)"

text \<open>
  The reference definition of the claim: true when the expected tenant is unset (absent
  or empty) or the development sentinel; otherwise, with a decoded tenant claim, true
  exactly when the claim equals the expected tenant; true with no decoded claim.
\<close>

definition validate_reference :: "platform \<Rightarrow> string option \<Rightarrow> string \<Rightarrow> bool" where
  "validate_reference P expected token =
     (if expected = None \<or> expected = Some [] \<or> expected = Some ''dev'' then True
      else (case tenant_claim P token of
              Some claim \<Rightarrow> Some claim = expected
            | None \<Rightarrow> True))"

text \<open>The same, with an empty decoded claim treated as no claim.\<close>

definition validate_reference_nonempty :: "platform \<Rightarrow> string option \<Rightarrow> string \<Rightarrow> bool" where
  "validate_reference_nonempty P expected token =
     (if expected = None \<or> expected = Some [] \<or> expected = Some ''dev'' then True
      else (case tenant_claim P token of
              Some claim \<Rightarrow> if claim = [] then True else Some claim = expected
            | None \<Rightarrow> True))"

section \<open>Browser environment\<close>

text \<open>
  A request as \<^verbatim>\<open>fetch\<close> receives it; \<open>req_site\<close> is the module that issues it and
  \<open>req_signal\<close> tells whether an abort signal (the timeout) is attached.
\<close>

datatype call_site = AuthService | RequestClient | AuthContext

record request =
  req_site :: call_site
  req_url :: string
  req_method :: string
  req_headers :: "(string \<times> string) list"
  req_body :: "string option"
  req_signal :: bool

text \<open>
  What a \<^verbatim>\<open>fetch\<close> gives: a rejection, or a response with its status and the result
  of \<^verbatim>\<open>response.json()\<close>, which throws on a body that is not JSON.
\<close>

datatype fetch_result = Rejected exn | Responded nat "json res"

definition response_ok :: "nat \<Rightarrow> bool" where
  "response_ok status = (200 \<le> status \<and> status \<le> 299)"

text \<open>
  The world outside the code.
  \<^item> \<open>window_defined\<close>: \<^verbatim>\<open>typeof window !== 'undefined'\<close>;
  \<^item> \<open>ls_blocked\<close>: every access to \<^verbatim>\<open>localStorage\<close> throws; \<open>ls_full\<close>: \<^verbatim>\<open>setItem\<close> throws;
  \<^item> \<open>ls_items\<close>: the entries of \<^verbatim>\<open>localStorage\<close>;
  \<^item> \<open>sent\<close>: the requests made so far, oldest first; \<open>backend\<close>: the network and the
    server, answering a request in view of the earlier ones;
  \<^item> \<open>time_at\<close>: the clock in milliseconds, as a function of the number of requests made
    (time passes while a request is awaited);
  \<^item> the three sources of the API base URL.
\<close>

record world =
  window_defined :: bool
  ls_blocked :: bool
  ls_full :: bool
  ls_items :: "string \<Rightarrow> string option"
  sent :: "request list"
  backend :: "request list \<Rightarrow> request \<Rightarrow> fetch_result"
  time_at :: "nat \<Rightarrow> int"
  configuredApiUrl :: "string option"
  window_config_apiUrl :: "string option"
  env_backend_url :: "string option"

definition now :: "world \<Rightarrow> int" where
  "now w = time_at w (length (sent w))"

definition fetch :: "request \<Rightarrow> world \<Rightarrow> fetch_result \<times> world" where
  "fetch r w = (backend w (sent w) r, w\<lparr>sent := sent w @ [r]\<rparr>)"

definition getItem :: "string \<Rightarrow> world \<Rightarrow> string option res" where
  "getItem k w =
     (if ls_blocked w then Throw (JsError ''SecurityError'' ''The operation is insecure'')
      else Ok (ls_items w k))"

definition setItem :: "string \<Rightarrow> string \<Rightarrow> world \<Rightarrow> unit res \<times> world" where
  "setItem k v w =
     (if ls_blocked w then (Throw (JsError ''SecurityError'' ''The operation is insecure''), w)
      else if ls_full w then (Throw (JsError ''QuotaExceededError'' ''The quota has been exceeded''), w)
      else (Ok (), w\<lparr>ls_items := (ls_items w)(k \<mapsto> v)\<rparr>))"

definition removeItem :: "string \<Rightarrow> world \<Rightarrow> unit res \<times> world" where
  "removeItem k w =
     (if ls_blocked w then (Throw (JsError ''SecurityError'' ''The operation is insecure''), w)
      else (Ok (), w\<lparr>ls_items := (ls_items w)(k := None)\<rparr>))"

text \<open>The conversion to a string: the identity on a string, the platform's otherwise.\<close>

definition js_to_string :: "platform \<Rightarrow> json option \<Rightarrow> string" where
  "js_to_string P v = (case v of Some (JStr s) \<Rightarrow> s | _ \<Rightarrow> to_string P v)"

text \<open>\<^verbatim>\<open>a < b\<close> on two date or number values, false when either is \<^verbatim>\<open>NaN\<close>.\<close>

definition js_lt :: "int option \<Rightarrow> int option \<Rightarrow> bool" where
  "js_lt a b = (case a of None \<Rightarrow> False | Some x \<Rightarrow> (case b of None \<Rightarrow> False | Some y \<Rightarrow> x < y))"

text \<open>An object literal: a property whose value is \<^verbatim>\<open>undefined\<close> reads as absent.\<close>

fun object_of :: "(string \<times> json option) list \<Rightarrow> (string \<times> json) list" where
  "object_of [] = []"
| "object_of ((k, None) # kvs) = object_of kvs"
| "object_of ((k, Some v) # kvs) = (k, v) # object_of kvs"

section \<open>Session store and session manager (the SDK's auth service)\<close>

definition SESSION :: string where "SESSION = ''zylo_session''"
definition ACCESS_TOKEN :: string where "ACCESS_TOKEN = ''zylo_access_token''"
definition REFRESH_TOKEN :: string where "REFRESH_TOKEN = ''zylo_refresh_token''"

definition REFRESH :: string where "REFRESH = ''/api/v1/auth/refresh''"

definition nonempty :: "string option \<Rightarrow> bool" where
  "nonempty s = (case s of None \<Rightarrow> False | Some t \<Rightarrow> t \<noteq> [])"

definition getApiUrl :: "world \<Rightarrow> string" where
  "getApiUrl w =
     (if nonempty (configuredApiUrl w) then the (configuredApiUrl w)
      else if window_defined w \<and> nonempty (window_config_apiUrl w)
        then the (window_config_apiUrl w)
      else if nonempty (env_backend_url w) then the (env_backend_url w)
      else [])"

definition clearStoredSession :: "world \<Rightarrow> world" where
  "clearStoredSession w =
     (if \<not> window_defined w then w
      else
        (case removeItem SESSION w of
           (Throw e, w1) \<Rightarrow> w1
         | (Ok u, w1) \<Rightarrow>
             (case removeItem ACCESS_TOKEN w1 of
                (Throw e, w2) \<Rightarrow> w2
              | (Ok u, w2) \<Rightarrow>
                  (case removeItem REFRESH_TOKEN w2 of
                     (Throw e, w3) \<Rightarrow> w3
                   | (Ok u, w3) \<Rightarrow> w3))))"

text \<open>
  \<^verbatim>\<open>getStoredSession\<close>: the body of its \<^verbatim>\<open>try\<close>, then the function with the \<^verbatim>\<open>catch\<close>.
  The result is the parsed value itself (the cast checks nothing), or \<^verbatim>\<open>null\<close>.
\<close>

definition getStoredSession_try :: "platform \<Rightarrow> world \<Rightarrow> json res \<times> world" where
  "getStoredSession_try P w =
     (case getItem SESSION w of
        Throw e \<Rightarrow> (Throw e, w)
      | Ok stored \<Rightarrow>
          if \<not> nonempty stored then (Ok JNull, w)
          else
            (case JSON_parse P (the stored) of
               Throw e \<Rightarrow> (Throw e, w)
             | Ok session \<Rightarrow>
                 (case js_member (Some session) ''expiresAt'' of
                    Throw e \<Rightarrow> (Throw e, w)
                  | Ok expiresAt \<Rightarrow>
                      if js_lt (date_time P expiresAt) (Some (now w))
                      then (Ok JNull, clearStoredSession w)
                      else (Ok session, w))))"

definition getStoredSession :: "platform \<Rightarrow> world \<Rightarrow> json \<times> world" where
  "getStoredSession P w =
     (if \<not> window_defined w then (JNull, w)
      else
        (case getStoredSession_try P w of
           (Ok session, w') \<Rightarrow> (session, w')
         | (Throw e, w') \<Rightarrow> (JNull, w')))"

definition storeSession :: "platform \<Rightarrow> json \<Rightarrow> world \<Rightarrow> world" where
  "storeSession P session w =
     (if \<not> window_defined w then w
      else
        (case setItem SESSION (JSON_stringify P session) w of
           (Throw e, w1) \<Rightarrow> w1
         | (Ok u, w1) \<Rightarrow>
             (case js_member (Some session) ''accessToken'' of
                Throw e \<Rightarrow> w1
              | Ok accessToken \<Rightarrow>
                  (case setItem ACCESS_TOKEN (js_to_string P accessToken) w1 of
                     (Throw e, w2) \<Rightarrow> w2
                   | (Ok u, w2) \<Rightarrow>
                       (case setItem REFRESH_TOKEN
                               (js_to_string P (get_prop session ''refreshToken'')) w2 of
                          (Throw e, w3) \<Rightarrow> w3
                        | (Ok u, w3) \<Rightarrow> w3)))))"

text \<open>
  \<^verbatim>\<open>apiRequest\<close>: the URL and options it builds, then the call. On a response that is not ok it throws an \<^verbatim>\<open>AuthServiceError\<close> built
  from the body (a \<^verbatim>\<open>TypeError\<close> when the body has no usable error): its callers here
  catch whatever is thrown, and the model keeps the name only.
\<close>

definition apiRequest_options :: "platform \<Rightarrow> string \<Rightarrow> string \<Rightarrow> json option \<Rightarrow> json \<Rightarrow> world \<Rightarrow> request" where
  "apiRequest_options P endpoint http_method body session w =
     (let apiUrl = getApiUrl w;
          fullUrl = (if apiUrl \<noteq> [] then apiUrl @ endpoint else endpoint);
          body_text = (if truthy_opt body \<and> http_method = ''POST''
                       then Some (JSON_stringify P (the body)) else None);
          headers = (if truthy session
                     then [(''Content-Type'', ''application/json''),
                           (''Authorization'',
                            ''Bearer '' @ js_to_string P (get_prop session ''accessToken''))]
                     else [(''Content-Type'', ''application/json'')])
      in \<lparr>req_site = AuthService, req_url = fullUrl, req_method = http_method,
          req_headers = headers, req_body = body_text, req_signal = False\<rparr>)"

definition apiRequest :: "platform \<Rightarrow> string \<Rightarrow> string \<Rightarrow> json option \<Rightarrow> world \<Rightarrow> json res \<times> world" where
  "apiRequest P endpoint http_method body w =
     (let (session, w1) = getStoredSession P w;
          (response, w2) = fetch (apiRequest_options P endpoint http_method body session w) w1
      in case response of
           Rejected e \<Rightarrow> (Throw e, w2)
         | Responded status json_result \<Rightarrow>
             (case json_result of
                Throw e \<Rightarrow> (Throw e, w2)
              | Ok data \<Rightarrow>
                  if \<not> response_ok status
                  then (Throw (JsError ''AuthServiceError'' []), w2)
                  else (Ok data, w2)))"


definition refreshSession :: "platform \<Rightarrow> world \<Rightarrow> json \<times> world" where
  "refreshSession P w =
     (let (stored, w1) = getStoredSession P w;
          refreshToken = opt_chain (Some stored) ''refreshToken''
      in
      if \<not> truthy_opt refreshToken then (JNull, w1)
      else
        (case apiRequest P REFRESH ''POST''
                (Some (JObj (object_of [(''refreshToken'', refreshToken)]))) w1 of
           (Throw e, w2) \<Rightarrow> (JNull, clearStoredSession w2)
         | (Ok response, w2) \<Rightarrow>
             (case js_member (Some response) ''success'' of
                Throw e \<Rightarrow> (JNull, clearStoredSession w2)
              | Ok success \<Rightarrow>
                  if \<not> truthy_opt success \<or> \<not> truthy_opt (get_prop response ''session'')
                  then (JNull, clearStoredSession w2)
                  else (the (get_prop response ''session''),
                        storeSession P (the (get_prop response ''session'')) w2))))"

definition getSession :: "platform \<Rightarrow> world \<Rightarrow> json \<times> world" where
  "getSession P w =
     (let (stored, w1) = getStoredSession P w in
      if \<not> truthy stored then (JNull, w1)
      else
        (let expiresAt = date_time P (get_prop stored ''expiresAt'');
             fiveMinutesFromNow = now w1 + 5 * 60 * 1000
         in if js_lt expiresAt (Some fiveMinutesFromNow) then refreshSession P w1
            else (stored, w1)))"

definition isAuthenticated_service :: "platform \<Rightarrow> world \<Rightarrow> bool \<times> world" where
  "isAuthenticated_service P w =
     (let (session, w1) = getStoredSession P w in (session \<noteq> JNull, w1))"

definition getAccessToken :: "platform \<Rightarrow> world \<Rightarrow> json \<times> world" where
  "getAccessToken P w =
     (let (session, w1) = getStoredSession P w in
      (case opt_chain (Some session) ''accessToken'' of
         None \<Rightarrow> (JNull, w1)
       | Some v \<Rightarrow> (v, w1)))"

subsection \<open>Sign-out of the SDK's provider\<close>



subsection \<open>Sign-out of the application's auth context\<close>





section \<open>Authenticated request client (the SDK's services/api/index.ts)\<close>

text \<open>Decimal digits, for a number inside a template literal and for an array index as a key.\<close>

definition digit :: "nat \<Rightarrow> char" where
  "digit d = ''0123456789'' ! d"

fun show_nat :: "nat \<Rightarrow> string" where
  "show_nat n = (if n < 10 then [digit n] else show_nat (n div 10) @ [digit (n mod 10)])"

declare show_nat.simps [simp del]

definition show_int :: "int \<Rightarrow> string" where
  "show_int i = (if i < 0 then CHR ''-'' # show_nat (nat (- i)) else show_nat (nat i))"

text \<open>
  The own enumerable properties that an object spread \<^verbatim>\<open>{...v}\<close> copies: those of an
  object, the indexed elements of an array, the indexed characters of a string, nothing
  of \<^verbatim>\<open>null\<close>, a number or a boolean.
\<close>

fun own_entries :: "json \<Rightarrow> (string \<times> json) list" where
  "own_entries (JObj kvs) = kvs"
| "own_entries (JArr xs) = zip (map show_nat [0..<length xs]) xs"
| "own_entries (JStr s) = zip (map show_nat [0..<length s]) (map (\<lambda>c. JStr [c]) s)"
| "own_entries v = []"

text \<open>
  Assigning properties in order, as an object literal does: an existing key keeps its
  place and takes the new value, a new key goes last.
\<close>

definition assign :: "('k \<times> 'v) list \<Rightarrow> ('k \<times> 'v) list \<Rightarrow> ('k \<times> 'v) list" where
  "assign obj entries = fold (\<lambda>(k, v). AList.update k v) entries obj"

text \<open>
  The order in which the engine lists the own properties of an object: first the keys
  that are array indices (the decimal text, with no leading zero, of a number below
  \<open>2\<^sup>3\<^sup>2 - 1\<close>) by ascending number, then the other keys as they were created.
\<close>

definition index_value :: "string \<Rightarrow> int" where
  "index_value k = foldl (\<lambda>n c. 10 * n + (of_char c - 48)) 0 k"

definition is_index :: "string \<Rightarrow> bool" where
  "is_index k =
     (k \<noteq> [] \<and> list_all (\<lambda>c. c \<in> set ''0123456789'') k
      \<and> (k = ''0'' \<or> hd k \<noteq> CHR ''0'') \<and> index_value k < 4294967295)"

definition property_order :: "(string \<times> 'v) list \<Rightarrow> (string \<times> 'v) list" where
  "property_order kvs =
     sort_key (\<lambda>kv. index_value (fst kv)) (filter (\<lambda>kv. is_index (fst kv)) kvs)
     @ filter (\<lambda>kv. \<not> is_index (fst kv)) kvs"

text \<open>
  A number inside a template literal: the decimal digits of an integer below
  \<open>10\<^sup>2\<^sup>1\<close> in size; from there on the platform's conversion, which writes an exponent.
\<close>

definition number_text :: "platform \<Rightarrow> int \<Rightarrow> string" where
  "number_text P i =
     (if \<bar>i\<bar> < 10 ^ 21 then show_int i else to_string P (Some (JNum (of_int i))))"

text \<open>The module's token cache. An expiry of \<open>None\<close> is \<^verbatim>\<open>null\<close> or \<^verbatim>\<open>NaN\<close>, both falsy.\<close>

record token_cache =
  cachedToken :: "json option"
  tokenExpiry :: "int option"

definition EXPIRY_BUFFER :: int where
  "EXPIRY_BUFFER = 5 * 60 * 1000"

definition cache_usable :: "token_cache \<Rightarrow> int \<Rightarrow> bool" where
  "cache_usable c current =
     (truthy_opt (cachedToken c)
      \<and> (case tokenExpiry c of
            None \<Rightarrow> False
          | Some expiry \<Rightarrow> expiry \<noteq> 0 \<and> current < expiry - EXPIRY_BUFFER))"

definition getValidToken :: "platform \<Rightarrow> token_cache \<Rightarrow> world \<Rightarrow> json option res \<times> token_cache \<times> world" where
  "getValidToken P c w =
     (if cache_usable c (now w) then (Ok (cachedToken c), c, w)
      else
        (let (session, w1) = getSession P w in
         if \<not> truthy session
         then (Throw (JsError ''Error'' ''No authenticated session. Please sign in first.''),
               c, w1)
         else (Ok (get_prop session ''accessToken''),
               \<lparr>cachedToken = get_prop session ''accessToken'',
                tokenExpiry = date_time P (get_prop session ''expiresAt'')\<rparr>,
               w1)))"

definition clearTokenCache :: "token_cache \<Rightarrow> token_cache" where
  "clearTokenCache c = \<lparr>cachedToken = None, tokenExpiry = None\<rparr>"

text \<open>The options of a request; \<open>None\<close> is a property left out.\<close>

record RequestOptions =
  opt_headers :: "(string \<times> string) list option"
  skipAuth :: "bool option"
  timeout :: "int option"

definition skips_auth :: "RequestOptions \<Rightarrow> bool" where
  "skips_auth options = (skipAuth options = Some True)"

text \<open>\<^verbatim>\<open>error instanceof Error ? error.message : fallback\<close>.\<close>

fun message_or :: "exn \<Rightarrow> string \<Rightarrow> string" where
  "message_or (JsError name msg) fallback = msg"
| "message_or NonError fallback = fallback"

text \<open>\<^verbatim>\<open>data.error || data.message || fallback\<close>.\<close>

definition error_text :: "json \<Rightarrow> string \<Rightarrow> json res" where
  "error_text data fallback =
     (case js_member (Some data) ''error'' of
        Throw e \<Rightarrow> Throw e
      | Ok err \<Rightarrow>
          if truthy_opt err then Ok (the err)
          else if truthy_opt (get_prop data ''message'') then Ok (the (get_prop data ''message''))
          else Ok (JStr fallback))"

definition failure :: "string \<Rightarrow> json" where
  "failure msg = JObj [(''success'', JBool False), (''error'', JStr msg)]"

text \<open>
  The two object literals with a spread of the response body: what the body has
  replaces what the literal has set before the spread.
\<close>

definition failure_with :: "json \<Rightarrow> json \<Rightarrow> json" where
  "failure_with err data =
     JObj (property_order
             (assign [(''success'', JBool False), (''error'', err)] (own_entries data)))"

definition success_with :: "json \<Rightarrow> json" where
  "success_with data =
     JObj (property_order
             (assign [(''success'', JBool True), (''data'', data)] (own_entries data)))"

text \<open>The request that \<^verbatim>\<open>fetch\<close> receives, from the pieces \<^verbatim>\<open>request\<close> has built.\<close>

definition client_request :: "platform \<Rightarrow> string \<Rightarrow> string \<Rightarrow> (string \<times> string) list \<Rightarrow> json option \<Rightarrow> bool \<Rightarrow> request" where
  "client_request P url http_method headers body with_signal =
     \<lparr>req_site = RequestClient, req_url = url, req_method = http_method,
      req_headers = headers,
      req_body = (if truthy_opt body then Some (JSON_stringify P (the body)) else None),
      req_signal = with_signal\<rparr>"

text \<open>
  The URL, the headers an object literal with a spread builds, and the assignment
  \<^verbatim>\<open>headers['Authorization'] = `Bearer ${token}`\<close>.
\<close>

definition request_url :: "string \<Rightarrow> string \<Rightarrow> string" where
  "request_url baseUrl path = baseUrl @ (if startsWith path ''/'' then path else ''/'' @ path)"

definition request_headers :: "RequestOptions \<Rightarrow> (string \<times> string) list" where
  "request_headers options =
     property_order
       (assign [(''Content-Type'', ''application/json'')]
          (case opt_headers options of None \<Rightarrow> [] | Some hs \<Rightarrow> hs))"

definition with_bearer :: "platform \<Rightarrow> json option \<Rightarrow> (string \<times> string) list \<Rightarrow> (string \<times> string) list" where
  "with_bearer P token headers =
     AList.update ''Authorization'' (''Bearer '' @ js_to_string P token) headers"

text \<open>The branch taken on a 401: from \<^verbatim>\<open>clearTokenCache()\<close> to its \<^verbatim>\<open>return\<close>s.\<close>

definition retry_after_401 :: "platform \<Rightarrow> string \<Rightarrow> string \<Rightarrow> (string \<times> string) list \<Rightarrow> json option \<Rightarrow> token_cache \<Rightarrow> world \<Rightarrow> json \<times> token_cache \<times> world" where
  "retry_after_401 P url http_method headers body c w =
     (case getValidToken P (clearTokenCache c) w of
        (Throw e, c1, w1) \<Rightarrow> (failure ''Authentication failed after retry'', c1, w1)
      | (Ok freshToken, c1, w1) \<Rightarrow>
          (let headers' = with_bearer P freshToken headers;
               (retryResponse, w2) =
                 fetch (client_request P url http_method headers' body False) w1
           in case retryResponse of
                Rejected e \<Rightarrow> (failure ''Authentication failed after retry'', c1, w2)
              | Responded status json_result \<Rightarrow>
                  (case json_result of
                     Throw e \<Rightarrow> (failure ''Authentication failed after retry'', c1, w2)
                   | Ok retryData \<Rightarrow>
                       if \<not> response_ok status
                       then (case error_text retryData ''Request failed'' of
                               Throw e \<Rightarrow>
                                 (failure ''Authentication failed after retry'', c1, w2)
                             | Ok err \<Rightarrow> (failure_with err retryData, c1, w2))
                       else (success_with retryData, c1, w2))))"

text \<open>The outer \<^verbatim>\<open>catch\<close>.\<close>

definition request_failed :: "platform \<Rightarrow> RequestOptions \<Rightarrow> exn \<Rightarrow> json" where
  "request_failed P options e =
     (case e of
        JsError name msg \<Rightarrow>
          if name = ''AbortError''
          then failure (''Request timed out after ''
                 @ number_text P
                     (((case timeout options of None \<Rightarrow> 30000 | Some t \<Rightarrow> t) + 500) div 1000)
                 @ '' seconds'')
          else failure msg
      | NonError \<Rightarrow> failure ''Network error'')"

definition request :: "platform \<Rightarrow> string \<Rightarrow> string \<Rightarrow> string \<Rightarrow> json option \<Rightarrow> RequestOptions \<Rightarrow> token_cache \<Rightarrow> world \<Rightarrow> json \<times> token_cache \<times> world" where
  "request P baseUrl http_method path body options c w =
     (let url = request_url baseUrl path;
          headers = request_headers options
      in
      case (if skips_auth options then (Ok None, c, w) else getValidToken P c w) of
        (Throw e, c1, w1) \<Rightarrow> (failure (message_or e ''Authentication failed''), c1, w1)
      | (Ok token, c1, w1) \<Rightarrow>
          (let headers' = (if skips_auth options then headers
                           else with_bearer P token headers);
               (response, w2) = fetch (client_request P url http_method headers' body True) w1
           in case response of
                Rejected e \<Rightarrow> (request_failed P options e, c1, w2)
              | Responded status json_result \<Rightarrow>
                  (case json_result of
                     Throw e \<Rightarrow> (request_failed P options e, c1, w2)
                   | Ok data \<Rightarrow>
                       if status = 401 \<and> \<not> skips_auth options
                       then retry_after_401 P url http_method headers' body c1 w2
                       else if \<not> response_ok status
                       then (case error_text data
                                    (''Request failed with status '' @ show_nat status) of
                               Throw e \<Rightarrow> (request_failed P options e, c1, w2)
                             | Ok err \<Rightarrow> (failure_with err data, c1, w2))
                       else (success_with data, c1, w2))))"

section \<open>Authenticated request client (the application's apiClient.ts)\<close>

text \<open>
  The application's client takes its session from the Supabase client library. The two
  calls it makes are parameters: \<open>sb_getSession\<close> gives the session of
  \<^verbatim>\<open>supabase.auth.getSession()\<close> (\<^verbatim>\<open>null\<close> when there is none), \<open>sb_refreshSession\<close>
  gives the session of \<^verbatim>\<open>supabase.auth.refreshSession()\<close> and whether its \<^verbatim>\<open>error\<close> is
  set.
\<close>

record supabase =
  sb_getSession :: "world \<Rightarrow> json res \<times> world"
  sb_refreshSession :: "world \<Rightarrow> (json \<times> bool) res \<times> world"

text \<open>A number that may be \<^verbatim>\<open>NaN\<close> (\<open>None\<close>), its truthiness, and \<^verbatim>\<open>v * k\<close>.\<close>

definition num_truthy :: "real option \<Rightarrow> bool" where
  "num_truthy n = (case n of None \<Rightarrow> False | Some x \<Rightarrow> x \<noteq> 0)"

definition js_times :: "platform \<Rightarrow> json \<Rightarrow> real \<Rightarrow> real option" where
  "js_times P v k =
     (case v of
        JNum x \<Rightarrow> Some (x * k)
      | _ \<Rightarrow> (case to_number P v of None \<Rightarrow> None | Some x \<Rightarrow> Some (x * k)))"

record app_token_cache =
  app_cachedToken :: "json option"
  app_tokenExpiry :: "real option"

definition cache_usable_app :: "app_token_cache \<Rightarrow> int \<Rightarrow> bool" where
  "cache_usable_app c current =
     (truthy_opt (app_cachedToken c)
      \<and> (case app_tokenExpiry c of
            None \<Rightarrow> False
          | Some expiry \<Rightarrow> expiry \<noteq> 0 \<and> real_of_int current < expiry - real_of_int EXPIRY_BUFFER))"

text \<open>\<^verbatim>\<open>s.expires_at ? s.expires_at * 1000 : fallback\<close>.\<close>

definition expiry_ms :: "platform \<Rightarrow> json \<Rightarrow> real \<Rightarrow> real option" where
  "expiry_ms P s fallback =
     (if truthy_opt (get_prop s ''expires_at'')
      then js_times P (the (get_prop s ''expires_at'')) 1000
      else Some fallback)"

definition getValidToken_app :: "platform \<Rightarrow> supabase \<Rightarrow> app_token_cache \<Rightarrow> world \<Rightarrow> json option res \<times> app_token_cache \<times> world" where
  "getValidToken_app P sb c w =
     (let current = now w in
      if cache_usable_app c current then (Ok (app_cachedToken c), c, w)
      else
        (case sb_getSession sb w of
           (Throw e, w1) \<Rightarrow> (Throw e, c, w1)
         | (Ok s, w1) \<Rightarrow>
             if \<not> truthy s
             then (Throw (JsError ''Error'' ''No authenticated session. Please sign in first.''),
                   c, w1)
             else
               (let expiresAt = expiry_ms P s 0 in
                if num_truthy expiresAt
                   \<and> the expiresAt - real_of_int EXPIRY_BUFFER < real_of_int current
                then
                  (case sb_refreshSession sb w1 of
                     (Throw e, w2) \<Rightarrow> (Throw e, c, w2)
                   | (Ok (refreshedSession, refreshError), w2) \<Rightarrow>
                       if refreshError \<or> \<not> truthy refreshedSession
                       then (Throw (JsError ''Error'' ''Failed to refresh authentication token''),
                             c, w2)
                       else
                         (Ok (get_prop refreshedSession ''access_token''),
                          \<lparr>app_cachedToken = get_prop refreshedSession ''access_token'',
                           app_tokenExpiry =
                             expiry_ms P refreshedSession (real_of_int current + 3600000)\<rparr>,
                          w2))
                else
                  (Ok (get_prop s ''access_token''),
                   \<lparr>app_cachedToken = get_prop s ''access_token'',
                    app_tokenExpiry = (if num_truthy expiresAt then expiresAt
                                       else Some (real_of_int current + 3600000))\<rparr>,
                   w1))))"

definition clearTokenCache_app :: "app_token_cache \<Rightarrow> app_token_cache" where
  "clearTokenCache_app c = \<lparr>app_cachedToken = None, app_tokenExpiry = None\<rparr>"

text \<open>An object literal of the client's results.\<close>

definition failure_app :: "json \<Rightarrow> json" where
  "failure_app err = JObj [(''success'', JBool False), (''error'', err)]"

definition unwrapped :: "json \<Rightarrow> json" where
  "unwrapped body =
     JObj (object_of [(''success'', Some (JBool True)), (''data'', get_prop body ''data''),
                      (''message'', get_prop body ''message'')])"

text \<open>
  What follows \<^verbatim>\<open>response.json()\<close> for a response that is not retried, and for the
  retried one: \<^verbatim>\<open>!response.ok || !json.success\<close> reads \<^verbatim>\<open>json.success\<close> only on an ok
  response, and \<^verbatim>\<open>json.error\<close> otherwise; both throw on \<^verbatim>\<open>null\<close>.
\<close>

definition settle :: "nat \<Rightarrow> json \<Rightarrow> string \<Rightarrow> json res" where
  "settle status body fallback =
     (case js_member (Some body) ''success'' of
        Throw e \<Rightarrow> Throw e
      | Ok flag \<Rightarrow>
          if \<not> response_ok status \<or> \<not> truthy_opt flag
          then (case error_text body fallback of
                  Throw e \<Rightarrow> Throw e
                | Ok err \<Rightarrow> Ok (failure_app err))
          else Ok (unwrapped body))"

text \<open>The branch taken on a 401.\<close>

definition retry_after_401_app :: "platform \<Rightarrow> supabase \<Rightarrow> string \<Rightarrow> string \<Rightarrow> (string \<times> string) list \<Rightarrow> json option \<Rightarrow> world \<Rightarrow> json \<times> app_token_cache \<times> world" where
  "retry_after_401_app P sb url http_method headers body w =
     (let cleared = \<lparr>app_cachedToken = None, app_tokenExpiry = None\<rparr> in
      case sb_refreshSession sb w of
        (Throw e, w1) \<Rightarrow> (failure ''Authentication failed after retry'', cleared, w1)
      | (Ok (refreshedSession, refreshError), w1) \<Rightarrow>
          if refreshError \<or> \<not> truthy refreshedSession
          then (failure ''Session expired. Please sign in again.'', cleared, w1)
          else
            (let headers' = with_bearer P (get_prop refreshedSession ''access_token'') headers;
                 c1 = \<lparr>app_cachedToken = get_prop refreshedSession ''access_token'',
                       app_tokenExpiry =
                         expiry_ms P refreshedSession (real_of_int (now w1) + 3600000)\<rparr>;
                 (retryResponse, w2) =
                   fetch (client_request P url http_method headers' body False) w1
             in case retryResponse of
                  Rejected e \<Rightarrow> (failure ''Authentication failed after retry'', c1, w2)
                | Responded status json_result \<Rightarrow>
                    (case json_result of
                       Throw e \<Rightarrow> (failure ''Authentication failed after retry'', c1, w2)
                     | Ok retryJson \<Rightarrow>
                         (case settle status retryJson ''Request failed after token refresh'' of
                            Throw e \<Rightarrow> (failure ''Authentication failed after retry'', c1, w2)
                          | Ok result \<Rightarrow> (result, c1, w2)))))"

definition request_failed_app :: "platform \<Rightarrow> RequestOptions \<Rightarrow> exn \<Rightarrow> json" where
  "request_failed_app P options e =
     (case e of
        JsError name msg \<Rightarrow>
          if name = ''AbortError''
          then failure (''Request timed out after ''
                 @ number_text P
                     (((case timeout options of
                          None \<Rightarrow> 30000
                        | Some t \<Rightarrow> if t = 0 then 30000 else t) + 500) div 1000)
                 @ '' seconds'')
          else failure msg
      | NonError \<Rightarrow> failure ''Network error'')"

definition request_app :: "platform \<Rightarrow> supabase \<Rightarrow> string \<Rightarrow> string \<Rightarrow> string \<Rightarrow> json option \<Rightarrow> RequestOptions \<Rightarrow> app_token_cache \<Rightarrow> world \<Rightarrow> json \<times> app_token_cache \<times> world" where
  "request_app P sb baseUrl http_method path body options c w =
     (let url = request_url baseUrl path;
          headers = request_headers options
      in
      case (if skips_auth options then (Ok None, c, w) else getValidToken_app P sb c w) of
        (Throw e, c1, w1) \<Rightarrow> (failure (message_or e ''Authentication failed''), c1, w1)
      | (Ok token, c1, w1) \<Rightarrow>
          (let headers' = (if skips_auth options then headers
                           else with_bearer P token headers);
               (response, w2) = fetch (client_request P url http_method headers' body True) w1
           in case response of
                Rejected e \<Rightarrow> (request_failed_app P options e, c1, w2)
              | Responded status json_result \<Rightarrow>
                  (case json_result of
                     Throw e \<Rightarrow> (request_failed_app P options e, c1, w2)
                   | Ok body_json \<Rightarrow>
                       if status = 401 \<and> \<not> skips_auth options
                       then retry_after_401_app P sb url http_method headers' body w2
                       else
                         (case settle status body_json
                                 (''Request failed with status '' @ show_nat status) of
                            Throw e \<Rightarrow> (request_failed_app P options e, c1, w2)
                          | Ok result \<Rightarrow> (result, c1, w2)))))"

section \<open>A platform for the examples\<close>

text \<open>
  The examples run on a platform given by what the built-ins return on the strings the
  examples use: the base64 text of four claim sets and of the text \<^verbatim>\<open>not json\<close>, and the JSON reading of
  the claim sets. On every
  other string this \<open>atob\<close> and this \<open>JSON_parse\<close> throw.
\<close>

definition example_atob :: "string \<Rightarrow> string res" where
  \<open>example_atob s =
     (if s = ''eyJhcHBfbWV0YWRhdGEiOnsicHJvamVjdF9pZCI6ImFjbWUifX0''
        then Ok ''{"app_metadata":{"project_id":"acme"}}''
      else if s = ''eyJhcHBfbWV0YWRhdGEiOnsicHJvamVjdF9pZCI6IiJ9fQ''
        then Ok ''{"app_metadata":{"project_id":""}}''
      else if s = ''eyJhcHBfbWV0YWRhdGEiOnsicHJvamVjdF9pZCI6NDJ9fQ''
        then Ok ''{"app_metadata":{"project_id":42}}''
      else if s = ''eyJzdWIiOiJ1MSJ9'' then Ok ''{"sub":"u1"}''
      else if s = ''bm90IGpzb24'' then Ok ''not json''
      else Throw (JsError ''InvalidCharacterError'' ''The string is not correctly encoded''))\<close>

text \<open>A session as the backend returns it, and its JSON text.\<close>

definition example_session :: json where
  "example_session =
     JObj [(''user'', JObj [(''id'', JStr ''u1''), (''email'', JStr ''a@b.c'')]),
           (''accessToken'', JStr ''h.eyJhcHBfbWV0YWRhdGEiOnsicHJvamVjdF9pZCI6ImFjbWUifX0.s''),
           (''refreshToken'', JStr ''r1''),
           (''expiresAt'', JStr ''2030-01-01T00:00:00.000Z'')]"

definition example_session_text :: string where
  \<open>example_session_text =
     ''{"user":{"id":"u1","email":"a@b.c"},"accessToken":"h.eyJhcHBfbWV0YWRhdGEiOnsicHJvamVjdF9pZCI6ImFjbWUifX0.s","refreshToken":"r1","expiresAt":"2030-01-01T00:00:00.000Z"}''\<close>

definition example_parse :: "string \<Rightarrow> json res" where
  \<open>example_parse s =
     (if s = ''{"app_metadata":{"project_id":"acme"}}''
        then Ok (JObj [(''app_metadata'', JObj [(''project_id'', JStr ''acme'')])])
      else if s = ''{"app_metadata":{"project_id":""}}''
        then Ok (JObj [(''app_metadata'', JObj [(''project_id'', JStr [])])])
      else if s = ''{"app_metadata":{"project_id":42}}''
        then Ok (JObj [(''app_metadata'', JObj [(''project_id'', JNum 42)])])
      else if s = ''{"sub":"u1"}'' then Ok (JObj [(''sub'', JStr ''u1'')])
      else if s = example_session_text then Ok example_session
      else Throw (JsError ''SyntaxError'' ''Unexpected token''))\<close>

text \<open>
  The other built-ins, again on the values the examples use: the text of the example
  session and of a sign-out body, the time of the example session's expiry (the first
  millisecond of 2030), and the strings for \<^verbatim>\<open>undefined\<close> and \<^verbatim>\<open>null\<close>.
\<close>

definition example_stringify :: "json \<Rightarrow> string" where
  \<open>example_stringify v =
     (if v = example_session then example_session_text
      else if v = JObj [(''accessToken'',
                JStr ''h.eyJhcHBfbWV0YWRhdGEiOnsicHJvamVjdF9pZCI6ImFjbWUifX0.s'')]
        then ''{"accessToken":"h.eyJhcHBfbWV0YWRhdGEiOnsicHJvamVjdF9pZCI6ImFjbWUifX0.s"}''
      else if v = JObj [(''refreshToken'', JStr ''r1'')] then ''{"refreshToken":"r1"}''
      else ''{}'')\<close>

definition example_to_string :: "json option \<Rightarrow> string" where
  "example_to_string v =
     (case v of None \<Rightarrow> ''undefined'' | Some JNull \<Rightarrow> ''null'' | Some u \<Rightarrow> ''[object Object]'')"

definition example_date_time :: "json option \<Rightarrow> int option" where
  "example_date_time v =
     (if v = Some (JStr ''2030-01-01T00:00:00.000Z'') then Some 1893456000000 else None)"

definition example_platform :: platform where
  "example_platform =
     \<lparr>atob = example_atob, JSON_parse = example_parse,
      JSON_stringify = example_stringify, to_string = example_to_string,
      date_time = example_date_time, to_number = (\<lambda>v. None)\<rparr>"

text \<open>
  A browser with an empty store and a network that cannot be reached, at a time in
  November 2023.
\<close>

definition example_world :: world where
  "example_world =
     \<lparr>window_defined = True, ls_blocked = False, ls_full = False, ls_items = Map.empty,
      sent = [],
      backend = (\<lambda>history r. Rejected (JsError ''TypeError'' ''Failed to fetch'')),
      time_at = (\<lambda>n. 1700000000000),
      configuredApiUrl = None, window_config_apiUrl = None, env_backend_url = None\<rparr>"

text \<open>
  A backend for the client examples that answers 401, with a JSON body, to every
  request. And a request with no option set.
\<close>

definition example_401_backend :: "request list \<Rightarrow> request \<Rightarrow> fetch_result" where
  "example_401_backend history r =
     Responded 401 (Ok (JObj [(''error'', JStr ''Unauthorized'')]))"

definition example_options :: RequestOptions where
  "example_options = \<lparr>opt_headers = None, skipAuth = None, timeout = None\<rparr>"

text \<open>
  The access token of the example session, and the request for \<^verbatim>\<open>/api/products\<close> as the
  clients send it with a given bearer token, with the abort signal or without.
\<close>

definition example_token :: string where
  "example_token = ''h.eyJhcHBfbWV0YWRhdGEiOnsicHJvamVjdF9pZCI6ImFjbWUifX0.s''"

definition example_call :: "string \<Rightarrow> bool \<Rightarrow> request" where
  "example_call token with_signal =
     \<lparr>req_site = RequestClient, req_url = ''/api/products'', req_method = ''GET'',
      req_headers = [(''Content-Type'', ''application/json''),
                     (''Authorization'', ''Bearer '' @ token)],
      req_body = None, req_signal = with_signal\<rparr>"

text \<open>
  Two more backends. One answers 401 with the text \<^verbatim>\<open>Unauthorized\<close>, as the middleware of
  the repository's own guide does (\<^verbatim>\<open>new Response('Unauthorized', { status: 401 })\<close>):
  reading that body as JSON throws. One answers 401 to the first request and then 500
  with a body that carries \<^verbatim>\<open>success: true\<close>.
\<close>

definition example_text_401_backend :: "request list \<Rightarrow> request \<Rightarrow> fetch_result" where
  "example_text_401_backend history r =
     Responded 401 (Throw (JsError ''SyntaxError'' ''Unexpected token U in JSON at position 0''))"

definition example_500_backend :: "request list \<Rightarrow> request \<Rightarrow> fetch_result" where
  "example_500_backend history r =
     (if history = [] then Responded 401 (Ok (JObj [(''error'', JStr ''Unauthorized'')]))
      else Responded 500 (Ok (JObj [(''success'', JBool True)])))"

text \<open>A Supabase client that holds a session and refreshes it without error.\<close>

definition example_supabase :: supabase where
  "example_supabase =
     \<lparr>sb_getSession = (\<lambda>w.
        (Ok (JObj [(''access_token'', JStr ''s1''), (''expires_at'', JNum 1893456000)]), w)),
      sb_refreshSession = (\<lambda>w.
        (Ok (JObj [(''access_token'', JStr ''s2''), (''expires_at'', JNum 1893456000)], False),
         w))\<rparr>"




section \<open>Route guard: path matching\<close>

lemma startsWith_prefix: "startsWith s p \<longleftrightarrow> prefix p s"
  by (auto simp: startsWith_def prefix_def) (metis append_eq_conv_conj)

lemma isPublicRoute_iff:
  "isPublicRoute routes pathname \<longleftrightarrow>
     (\<exists>r \<in> set routes. pathname = r \<or> (r \<noteq> ''/'' \<and> prefix (r @ ''/'') pathname))"
  unfolding isPublicRoute_def list_ex_iff startsWith_prefix by auto

lemma route_matches_app_iff:
  "route_matches_app routes pathname \<longleftrightarrow>
     (\<exists>r \<in> set routes. pathname = r \<or> (r \<noteq> ''/'' \<and> prefix (r @ ''/'') pathname))"
  unfolding route_matches_app_def list_ex_iff startsWith_prefix by auto

text \<open>
  Claim C4. For every list of public prefixes and every path, both guards class the
  path as public exactly when it equals one of the prefixes, or starts with a prefix
  other than \<^verbatim>\<open>/\<close> followed by \<^verbatim>\<open>/\<close>. The prefix \<^verbatim>\<open>/\<close> alone matches the path \<^verbatim>\<open>/\<close> and
  no other.
\<close>

theorem public_route_matching:
  "(isPublicRoute routes pathname \<longleftrightarrow>
      (\<exists>r \<in> set routes. pathname = r \<or> (r \<noteq> ''/'' \<and> prefix (r @ ''/'') pathname)))
   \<and> (route_matches_app routes pathname \<longleftrightarrow>
      (\<exists>r \<in> set routes. pathname = r \<or> (r \<noteq> ''/'' \<and> prefix (r @ ''/'') pathname)))
   \<and> (isPublicRoute [''/''] pathname \<longleftrightarrow> pathname = ''/'')
   \<and> (route_matches_app [''/''] pathname \<longleftrightarrow> pathname = ''/'')"
proof -
  have "isPublicRoute [''/''] pathname \<longleftrightarrow> pathname = ''/''"
    by (simp add: isPublicRoute_def)
  moreover have "route_matches_app [''/''] pathname \<longleftrightarrow> pathname = ''/''"
    by (simp add: route_matches_app_def)
  ultimately show ?thesis
    using isPublicRoute_iff [of routes pathname] route_matches_app_iff [of routes pathname]
    by blast
qed

section \<open>Route guard: decisions\<close>

lemma app_loading:
  "isLoading auth \<Longrightarrow> LayoutProtection_app auth pathname = (DefaultLoading, NoRedirect)"
  by (simp add: LayoutProtection_app_def Let_def)

lemma sdk_loading:
  "isLoading auth \<Longrightarrow>
   LayoutProtection hw auth props pathname = (loading_view (loadingComponent props), NoRedirect)"
  by (simp add: LayoutProtection_def Let_def)

lemma app_root_public: "isPublicRoute_app ''/''"
  by (simp add: isPublicRoute_app_def route_matches_app_def PUBLIC_ROUTES_def)

lemma app_authenticated:
  assumes "\<not> isLoading auth" and "isAuthenticated auth"
  shows "LayoutProtection_app auth ''/'' = (Children, NoRedirect)"
    and "isPublicRoute_app pathname \<Longrightarrow> pathname \<noteq> ''/'' \<Longrightarrow>
         LayoutProtection_app auth pathname = (Nothing, RouterPush AUTHENTICATED_HOME)"
    and "\<not> isPublicRoute_app pathname \<Longrightarrow>
         LayoutProtection_app auth pathname = (Children, NoRedirect)"
  using assms app_root_public
  by (simp_all add: LayoutProtection_app_def ProtectedRoute_app_def Let_def)

lemma app_anonymous:
  assumes "\<not> isLoading auth" and "\<not> isAuthenticated auth"
  shows "isPublicRoute_app pathname \<Longrightarrow>
         LayoutProtection_app auth pathname = (Children, NoRedirect)"
    and "\<not> isPublicRoute_app pathname \<Longrightarrow>
         LayoutProtection_app auth pathname = (Nothing, RouterPush ''/login'')"
  using assms
  by (simp_all add: LayoutProtection_app_def ProtectedRoute_app_def redirectTo_of_def Let_def)

lemma sdk_authenticated:
  assumes "\<not> isLoading auth" and "isAuthenticated auth"
  shows "isPublicRoute (publicRoutes_of props) pathname \<Longrightarrow>
         authenticatedRedirect_of props \<noteq> [] \<Longrightarrow>
         LayoutProtection hw auth props pathname =
           (Nothing, do_redirect (onRedirect props) hw (authenticatedRedirect_of props))"
    and "\<not> isPublicRoute (publicRoutes_of props) pathname \<Longrightarrow>
         LayoutProtection hw auth props pathname = (Children, NoRedirect)"
  using assms
  by (simp_all add: LayoutProtection_def ProtectedRoute_def Let_def)

lemma sdk_anonymous:
  assumes "\<not> isLoading auth" and "\<not> isAuthenticated auth"
  shows "isPublicRoute (publicRoutes_of props) pathname \<Longrightarrow>
         LayoutProtection hw auth props pathname = (Children, NoRedirect)"
    and "\<not> isPublicRoute (publicRoutes_of props) pathname \<Longrightarrow>
         LayoutProtection hw auth props pathname =
           (Nothing, do_redirect (onRedirect props) hw (redirectTo_of (redirectTo props)))"
  using assms
  by (simp_all add: LayoutProtection_def ProtectedRoute_def Let_def)

lemma do_redirect_redirects:
  "has_onRedirect \<or> hw \<Longrightarrow> redirects_to (do_redirect has_onRedirect hw p) p"
  by (auto simp: do_redirect_def redirects_to_def)

text \<open>
  Claim C3, as the code has it. While the state is Loading both guards render a loading
  placeholder and redirect nowhere. With state Anonymous both render a public path and
  send a protected path to the login path. With state Authenticated the application's
  guard renders the root path and redirects every other public path to the
  authenticated home; the SDK guard has no exception for the root: it redirects every
  public path, the root included, to the configured non-empty authenticated home
  (through the callback or the window), and renders every path that is not public.
\<close>

theorem route_guard_decisions:
  "(isLoading auth \<longrightarrow>
      LayoutProtection_app auth pathname = (DefaultLoading, NoRedirect)
      \<and> LayoutProtection hw auth props pathname =
          (loading_view (loadingComponent props), NoRedirect))
   \<and> (\<not> isLoading auth \<and> \<not> isAuthenticated auth \<longrightarrow>
      (isPublicRoute_app pathname \<longrightarrow>
         LayoutProtection_app auth pathname = (Children, NoRedirect))
      \<and> (\<not> isPublicRoute_app pathname \<longrightarrow>
         LayoutProtection_app auth pathname = (Nothing, RouterPush ''/login''))
      \<and> (isPublicRoute (publicRoutes_of props) pathname \<longrightarrow>
         LayoutProtection hw auth props pathname = (Children, NoRedirect))
      \<and> (\<not> isPublicRoute (publicRoutes_of props) pathname \<and> (onRedirect props \<or> hw) \<longrightarrow>
         fst (LayoutProtection hw auth props pathname) = Nothing
         \<and> redirects_to (snd (LayoutProtection hw auth props pathname))
              (redirectTo_of (redirectTo props))))
   \<and> (\<not> isLoading auth \<and> isAuthenticated auth \<longrightarrow>
      LayoutProtection_app auth ''/'' = (Children, NoRedirect)
      \<and> (isPublicRoute_app pathname \<and> pathname \<noteq> ''/'' \<longrightarrow>
         LayoutProtection_app auth pathname = (Nothing, RouterPush AUTHENTICATED_HOME))
      \<and> (\<not> isPublicRoute_app pathname \<longrightarrow>
         LayoutProtection_app auth pathname = (Children, NoRedirect))
      \<and> (isPublicRoute (publicRoutes_of props) pathname
           \<and> authenticatedRedirect_of props \<noteq> [] \<and> (onRedirect props \<or> hw) \<longrightarrow>
         fst (LayoutProtection hw auth props pathname) = Nothing
         \<and> redirects_to (snd (LayoutProtection hw auth props pathname))
              (authenticatedRedirect_of props))
      \<and> (\<not> isPublicRoute (publicRoutes_of props) pathname \<longrightarrow>
         LayoutProtection hw auth props pathname = (Children, NoRedirect)))"
proof (intro conjI impI)
  assume "isLoading auth"
  then show "LayoutProtection_app auth pathname = (DefaultLoading, NoRedirect)"
    and "LayoutProtection hw auth props pathname =
          (loading_view (loadingComponent props), NoRedirect)"
    by (rule app_loading, rule sdk_loading)
next
  assume a: "\<not> isLoading auth \<and> \<not> isAuthenticated auth"
  { assume "isPublicRoute_app pathname"
    with a show "LayoutProtection_app auth pathname = (Children, NoRedirect)"
      by (simp add: app_anonymous) }
  { assume "\<not> isPublicRoute_app pathname"
    with a show "LayoutProtection_app auth pathname = (Nothing, RouterPush ''/login'')"
      by (simp add: app_anonymous) }
  { assume "isPublicRoute (publicRoutes_of props) pathname"
    with a show "LayoutProtection hw auth props pathname = (Children, NoRedirect)"
      by (simp add: sdk_anonymous) }
  { assume b: "\<not> isPublicRoute (publicRoutes_of props) pathname \<and> (onRedirect props \<or> hw)"
    with a show "fst (LayoutProtection hw auth props pathname) = Nothing"
      by (simp add: sdk_anonymous)
    from a b show "redirects_to (snd (LayoutProtection hw auth props pathname))
              (redirectTo_of (redirectTo props))"
      by (simp add: sdk_anonymous do_redirect_redirects) }
next
  assume a: "\<not> isLoading auth \<and> isAuthenticated auth"
  then show "LayoutProtection_app auth ''/'' = (Children, NoRedirect)"
    by (simp add: app_authenticated)
  { assume "isPublicRoute_app pathname \<and> pathname \<noteq> ''/''"
    with a show "LayoutProtection_app auth pathname = (Nothing, RouterPush AUTHENTICATED_HOME)"
      by (simp add: app_authenticated) }
  { assume "\<not> isPublicRoute_app pathname"
    with a show "LayoutProtection_app auth pathname = (Children, NoRedirect)"
      by (simp add: app_authenticated) }
  { assume b: "isPublicRoute (publicRoutes_of props) pathname
           \<and> authenticatedRedirect_of props \<noteq> [] \<and> (onRedirect props \<or> hw)"
    with a show "fst (LayoutProtection hw auth props pathname) = Nothing"
      by (simp add: sdk_authenticated)
    from a b show "redirects_to (snd (LayoutProtection hw auth props pathname))
              (authenticatedRedirect_of props)"
      by (simp add: sdk_authenticated do_redirect_redirects) }
  { assume "\<not> isPublicRoute (publicRoutes_of props) pathname"
    with a show "LayoutProtection hw auth props pathname = (Children, NoRedirect)"
      by (simp add: sdk_authenticated) }
qed

theorem route_guard_decisions_witness:
  "LayoutProtection_app \<lparr>isAuthenticated = False, isLoading = False\<rparr> ''/login''
     = (Children, NoRedirect)
   \<and> LayoutProtection_app \<lparr>isAuthenticated = True, isLoading = False\<rparr> ''/login''
     = (Nothing, RouterPush ''/home'')
   \<and> LayoutProtection_app \<lparr>isAuthenticated = False, isLoading = False\<rparr> ''/dashboard''
     = (Nothing, RouterPush ''/login'')
   \<and> LayoutProtection_app \<lparr>isAuthenticated = True, isLoading = False\<rparr> ''/''
     = (Children, NoRedirect)
   \<and> LayoutProtection_app \<lparr>isAuthenticated = True, isLoading = True\<rparr> ''/login''
     = (DefaultLoading, NoRedirect)
   \<and> redirects_to (snd (LayoutProtection True \<lparr>isAuthenticated = True, isLoading = False\<rparr>
        \<lparr>publicRoutes = Some [''/login'', ''/signup''], redirectTo = None,
         authenticatedRedirect = None, loadingComponent = False, onRedirect = False\<rparr>
        ''/login'')) ''/home''
   \<and> redirects_to (snd (LayoutProtection True \<lparr>isAuthenticated = False, isLoading = False\<rparr>
        \<lparr>publicRoutes = Some [''/login'', ''/signup''], redirectTo = None,
         authenticatedRedirect = None, loadingComponent = False, onRedirect = False\<rparr>
        ''/dashboard'')) ''/login''
   \<and> LayoutProtection True \<lparr>isAuthenticated = True, isLoading = False\<rparr>
        \<lparr>publicRoutes = Some [''/login'', ''/signup''], redirectTo = None,
         authenticatedRedirect = None, loadingComponent = False, onRedirect = False\<rparr>
        ''/'' = (Children, NoRedirect)"
  using
    route_guard_decisions [of "\<lparr>isAuthenticated = False, isLoading = False\<rparr>" "''/login''" True
      "\<lparr>publicRoutes = Some [''/login'', ''/signup''], redirectTo = None,
        authenticatedRedirect = None, loadingComponent = False, onRedirect = False\<rparr>"]
    route_guard_decisions [of "\<lparr>isAuthenticated = True, isLoading = False\<rparr>" "''/login''" True
      "\<lparr>publicRoutes = Some [''/login'', ''/signup''], redirectTo = None,
        authenticatedRedirect = None, loadingComponent = False, onRedirect = False\<rparr>"]
    route_guard_decisions [of "\<lparr>isAuthenticated = False, isLoading = False\<rparr>" "''/dashboard''"
      True
      "\<lparr>publicRoutes = Some [''/login'', ''/signup''], redirectTo = None,
        authenticatedRedirect = None, loadingComponent = False, onRedirect = False\<rparr>"]
    route_guard_decisions [of "\<lparr>isAuthenticated = True, isLoading = False\<rparr>" "''/''" True
      "\<lparr>publicRoutes = Some [''/login'', ''/signup''], redirectTo = None,
        authenticatedRedirect = None, loadingComponent = False, onRedirect = False\<rparr>"]
    route_guard_decisions [of "\<lparr>isAuthenticated = True, isLoading = True\<rparr>" "''/login''" True
      "\<lparr>publicRoutes = Some [''/login'', ''/signup''], redirectTo = None,
        authenticatedRedirect = None, loadingComponent = False, onRedirect = False\<rparr>"]
  by (simp add: isPublicRoute_app_def route_matches_app_def PUBLIC_ROUTES_def
      AUTHENTICATED_HOME_def isPublicRoute_def startsWith_def publicRoutes_of_def
      authenticatedRedirect_of_def redirectTo_of_def)

text \<open>
  The claim as stated fails on the SDK guard: with the root among the public routes, an
  authenticated user at \<^verbatim>\<open>/\<close> is not rendered the page but redirected to the authenticated
  home.
\<close>

theorem sdk_root_redirect_counterexample:
  "LayoutProtection True \<lparr>isAuthenticated = True, isLoading = False\<rparr>
     \<lparr>publicRoutes = Some [''/'', ''/login''], redirectTo = None,
      authenticatedRedirect = None, loadingComponent = False, onRedirect = False\<rparr> ''/''
   = (Nothing, SetLocation ''/home'')"
  by (simp add: LayoutProtection_def isPublicRoute_def publicRoutes_of_def
      authenticatedRedirect_of_def do_redirect_def)

section \<open>Token decoder: properties\<close>

lemmas example_defs =
  example_platform_def example_atob_def example_parse_def example_stringify_def
  example_to_string_def example_date_time_def example_session_def example_session_text_def

lemma split_on_nonempty: "split_on d s \<noteq> []"
  by (induction s) (auto split: list.splits)

lemma length_split_on: "length (split_on d s) = Suc (count_list s d)"
  by (induction s) (auto split: list.splits simp: split_on_nonempty)

lemma decodeJwtPayload_total: "\<exists>v. decodeJwtPayload P token = Ok v"
  by (simp add: decodeJwtPayload_def split: res.splits)

lemma decodeJwtPayload_segments:
  "length (split_on CHR ''.'' t) \<noteq> 3 \<Longrightarrow> decodeJwtPayload P (Some (JStr t)) = Ok JNull"
  by (simp add: decodeJwtPayload_def decodeJwtPayload_try_def)

lemma decodeJwtPayload_atob_fails:
  assumes "split_on CHR ''.'' t = [h, m, s]"
    and "atob P (replace_all CHR ''_'' CHR ''/'' (replace_all CHR ''-'' CHR ''+'' m)) = Throw e"
  shows "decodeJwtPayload P (Some (JStr t)) = Ok JNull"
  using assms by (simp add: decodeJwtPayload_def decodeJwtPayload_try_def)

lemma decodeJwtPayload_parse_fails:
  assumes "split_on CHR ''.'' t = [h, m, s]"
    and "atob P (replace_all CHR ''_'' CHR ''/'' (replace_all CHR ''-'' CHR ''+'' m)) = Ok decoded"
    and "JSON_parse P decoded = Throw e"
  shows "decodeJwtPayload P (Some (JStr t)) = Ok JNull"
  using assms by (simp add: decodeJwtPayload_def decodeJwtPayload_try_def)

lemma decodeJwtPayload_parsed:
  assumes "split_on CHR ''.'' t = [h, m, s]"
    and "atob P (replace_all CHR ''_'' CHR ''/'' (replace_all CHR ''-'' CHR ''+'' m)) = Ok decoded"
    and "JSON_parse P decoded = Ok payload"
  shows "decodeJwtPayload P (Some (JStr t)) = Ok payload"
  using assms by (simp add: decodeJwtPayload_def decodeJwtPayload_try_def)

text \<open>
  Claim C8. The decoder returns on every input, never throwing. A string that does not
  hold exactly two \<^verbatim>\<open>.\<close> does not split into three segments and decodes to \<^verbatim>\<open>null\<close>;
  so does a three-segment string whose middle segment the base64 decoder rejects, or
  decodes to text the JSON parser rejects.
\<close>

theorem decode_malformed_is_null:
  "(\<exists>v. decodeJwtPayload P token = Ok v)
   \<and> (length (split_on CHR ''.'' t) = 3 \<longleftrightarrow> count_list t CHR ''.'' = 2)
   \<and> (count_list t CHR ''.'' \<noteq> 2 \<longrightarrow> decodeJwtPayload P (Some (JStr t)) = Ok JNull)
   \<and> (split_on CHR ''.'' t = [h, m, s]
        \<and> atob P (replace_all CHR ''_'' CHR ''/'' (replace_all CHR ''-'' CHR ''+'' m)) = Throw e
      \<longrightarrow> decodeJwtPayload P (Some (JStr t)) = Ok JNull)
   \<and> (split_on CHR ''.'' t = [h, m, s]
        \<and> atob P (replace_all CHR ''_'' CHR ''/'' (replace_all CHR ''-'' CHR ''+'' m)) = Ok decoded
        \<and> JSON_parse P decoded = Throw e
      \<longrightarrow> decodeJwtPayload P (Some (JStr t)) = Ok JNull)"
proof (intro conjI impI)
  show "\<exists>v. decodeJwtPayload P token = Ok v"
    by (rule decodeJwtPayload_total)
  show "length (split_on CHR ''.'' t) = 3 \<longleftrightarrow> count_list t CHR ''.'' = 2"
    by (simp add: length_split_on)
  show "decodeJwtPayload P (Some (JStr t)) = Ok JNull" if "count_list t CHR ''.'' \<noteq> 2"
    using that by (simp add: decodeJwtPayload_segments length_split_on)
  show "decodeJwtPayload P (Some (JStr t)) = Ok JNull"
    if "split_on CHR ''.'' t = [h, m, s]
        \<and> atob P (replace_all CHR ''_'' CHR ''/'' (replace_all CHR ''-'' CHR ''+'' m)) = Throw e"
    using that decodeJwtPayload_atob_fails by blast
  show "decodeJwtPayload P (Some (JStr t)) = Ok JNull"
    if "split_on CHR ''.'' t = [h, m, s]
        \<and> atob P (replace_all CHR ''_'' CHR ''/'' (replace_all CHR ''-'' CHR ''+'' m)) = Ok decoded
        \<and> JSON_parse P decoded = Throw e"
    using that decodeJwtPayload_parse_fails by blast
qed

theorem decode_malformed_is_null_witness:
  "decodeJwtPayload example_platform (Some (JStr ''abc'')) = Ok JNull
   \<and> decodeJwtPayload example_platform (Some (JStr ''a.b.c.d'')) = Ok JNull
   \<and> decodeJwtPayload example_platform (Some (JStr ''x.!!!.z'')) = Ok JNull
   \<and> decodeJwtPayload example_platform (Some (JStr ''x.bm90IGpzb24.z'')) = Ok JNull"
  using
    decode_malformed_is_null [where P = example_platform and t = "''abc''"]
    decode_malformed_is_null [where P = example_platform and t = "''a.b.c.d''"]
    decode_malformed_is_null [where P = example_platform and t = "''x.!!!.z''"
      and h = "''x''" and m = "''!!!''" and s = "''z''"
      and e = "JsError ''InvalidCharacterError'' ''The string is not correctly encoded''"]
    decode_malformed_is_null [where P = example_platform and t = "''x.bm90IGpzb24.z''"
      and h = "''x''" and m = "''bm90IGpzb24''" and s = "''z''" and decoded = "''not json''"
      and e = "JsError ''SyntaxError'' ''Unexpected token''"]
  by (simp add: example_defs replace_all_def)

section \<open>Identity validator: properties\<close>

lemma getProjectIdFromToken_app_claim:
  "getProjectIdFromToken_app P (Some (JStr t)) = Ok (tenant_claim P t)"
proof -
  obtain v where v: "decodeJwtPayload P (Some (JStr t)) = Ok v"
    using decodeJwtPayload_total by blast
  show ?thesis
  proof (cases v)
    case (JObj claims)
    show ?thesis
    proof (cases "map_of claims ''app_metadata''")
      case None
      with v JObj show ?thesis
        by (simp add: getProjectIdFromToken_app_def tenant_claim_def)
    next
      case (Some metadata)
      with v JObj show ?thesis
        by (cases metadata)
           (simp_all add: getProjectIdFromToken_app_def tenant_claim_def
              split: option.splits json.splits)
    qed
  qed (simp_all add: v getProjectIdFromToken_app_def tenant_claim_def)
qed

lemma getProjectIdFromToken_claim:
  "getProjectIdFromToken P (Some (JStr t)) =
     Ok (case tenant_claim P t of
           None \<Rightarrow> None
         | Some s \<Rightarrow> if s = [] then None else Some s)"
proof -
  obtain v where v: "decodeJwtPayload P (Some (JStr t)) = Ok v"
    using decodeJwtPayload_total by blast
  show ?thesis
  proof (cases v)
    case (JObj claims)
    show ?thesis
    proof (cases "map_of claims ''app_metadata''")
      case None
      with v JObj show ?thesis
        by (simp add: getProjectIdFromToken_def tenant_claim_def)
    next
      case (Some metadata)
      with v JObj show ?thesis
        by (cases metadata)
           (simp_all add: getProjectIdFromToken_def tenant_claim_def
              split: option.splits json.splits)
    qed
  qed (simp_all add: v getProjectIdFromToken_def tenant_claim_def)
qed

lemma validateProjectId_reference:
  "validateProjectId P expected (Some (JStr t)) = Ok (validate_reference_nonempty P expected t)"
  by (auto simp: validateProjectId_def validate_reference_nonempty_def
        getProjectIdFromToken_app_claim split: option.splits)

lemma validateSessionProject_reference:
  assumes "js_member session ''accessToken'' = Ok (Some (JStr t))"
  shows "validateSessionProject P projectId session =
           Ok (validate_reference_nonempty P (Some projectId) t)"
  using assms
  by (auto simp: validateSessionProject_def validate_reference_nonempty_def
        getProjectIdFromToken_claim split: option.splits)

text \<open>
  Claim C2, as the code has it. On every token string both validators equal the
  reference definition in which an empty decoded claim counts as no claim: true when the
  expected tenant is unset, empty or \<^verbatim>\<open>dev\<close>, whatever the token; otherwise, with a
  non-empty decoded tenant claim, true exactly when the claim is the expected tenant,
  character for character; and true when no claim, or an empty one, is decoded.
\<close>

theorem validate_equals_reference:
  "validateProjectId P expected (Some (JStr t)) = Ok (validate_reference_nonempty P expected t)
   \<and> (js_member session ''accessToken'' = Ok (Some (JStr t)) \<longrightarrow>
        validateSessionProject P projectId session =
          Ok (validate_reference_nonempty P (Some projectId) t))"
  using validateProjectId_reference validateSessionProject_reference by blast

theorem validate_equals_reference_witness:
  "validateProjectId example_platform (Some ''acme'')
       (Some (JStr ''h.eyJhcHBfbWV0YWRhdGEiOnsicHJvamVjdF9pZCI6ImFjbWUifX0.s'')) = Ok True
   \<and> validateProjectId example_platform (Some ''Acme'')
       (Some (JStr ''h.eyJhcHBfbWV0YWRhdGEiOnsicHJvamVjdF9pZCI6ImFjbWUifX0.s'')) = Ok False
   \<and> validateSessionProject example_platform ''acme''
       (Some (JObj [(''accessToken'',
          JStr ''h.eyJhcHBfbWV0YWRhdGEiOnsicHJvamVjdF9pZCI6ImFjbWUifX0.s'')])) = Ok True
   \<and> validateSessionProject example_platform ''other''
       (Some (JObj [(''accessToken'',
          JStr ''h.eyJhcHBfbWV0YWRhdGEiOnsicHJvamVjdF9pZCI6ImFjbWUifX0.s'')])) = Ok False
   \<and> validateSessionProject example_platform ''dev''
       (Some (JObj [(''accessToken'', JStr ''garbage'')])) = Ok True"
  using
    validate_equals_reference [where P = example_platform and expected = "Some ''acme''"
      and t = "''h.eyJhcHBfbWV0YWRhdGEiOnsicHJvamVjdF9pZCI6ImFjbWUifX0.s''"
      and projectId = "''acme''"
      and session = "Some (JObj [(''accessToken'',
          JStr ''h.eyJhcHBfbWV0YWRhdGEiOnsicHJvamVjdF9pZCI6ImFjbWUifX0.s'')])"]
    validate_equals_reference [where P = example_platform and expected = "Some ''Acme''"
      and t = "''h.eyJhcHBfbWV0YWRhdGEiOnsicHJvamVjdF9pZCI6ImFjbWUifX0.s''"
      and projectId = "''other''"
      and session = "Some (JObj [(''accessToken'',
          JStr ''h.eyJhcHBfbWV0YWRhdGEiOnsicHJvamVjdF9pZCI6ImFjbWUifX0.s'')])"]
    validate_equals_reference [where P = example_platform and expected = None
      and t = "''garbage''" and projectId = "''dev''"
      and session = "Some (JObj [(''accessToken'', JStr ''garbage'')])"]
  by (simp add: validate_reference_nonempty_def tenant_claim_def decodeJwtPayload_def
      decodeJwtPayload_try_def example_defs
      replace_all_def)

text \<open>
  The claim as stated fails on \<^verbatim>\<open>validateProjectId\<close>: from a token whose
  \<^verbatim>\<open>app_metadata.project_id\<close> is the empty string the claim \<^verbatim>\<open>""\<close> is decoded, it differs
  from the expected tenant \<^verbatim>\<open>acme\<close>, and the validator still returns true.
\<close>

theorem validate_empty_claim_counterexample:
  "getProjectIdFromToken_app example_platform
       (Some (JStr ''h.eyJhcHBfbWV0YWRhdGEiOnsicHJvamVjdF9pZCI6IiJ9fQ.s'')) = Ok (Some [])
   \<and> validateProjectId example_platform (Some ''acme'')
       (Some (JStr ''h.eyJhcHBfbWV0YWRhdGEiOnsicHJvamVjdF9pZCI6IiJ9fQ.s'')) = Ok True
   \<and> validate_reference example_platform (Some ''acme'')
       ''h.eyJhcHBfbWV0YWRhdGEiOnsicHJvamVjdF9pZCI6IiJ9fQ.s'' = False"
  by (simp add: validateProjectId_def getProjectIdFromToken_app_def validate_reference_def
      tenant_claim_def decodeJwtPayload_def decodeJwtPayload_try_def example_defs replace_all_def)

text \<open>
  Claim C10. When the decoded payload of a three-segment token carries an
  \<^verbatim>\<open>app_metadata.project_id\<close> that is not a string, both extractors return \<^verbatim>\<open>null\<close> and
  both validators return true, whatever tenant is expected.
\<close>

theorem nonstring_claim_fails_open:
  assumes "split_on CHR ''.'' t = [h, m, s]"
    and "atob P (replace_all CHR ''_'' CHR ''/'' (replace_all CHR ''-'' CHR ''+'' m)) = Ok decoded"
    and "JSON_parse P decoded = Ok (JObj claims)"
    and "map_of claims ''app_metadata'' = Some (JObj metadata)"
    and "map_of metadata ''project_id'' = Some v"
    and "\<forall>str. v \<noteq> JStr str"
    and "js_member session ''accessToken'' = Ok (Some (JStr t))"
  shows "getProjectIdFromToken P (Some (JStr t)) = Ok None
    \<and> getProjectIdFromToken_app P (Some (JStr t)) = Ok None
    \<and> validateProjectId P expected (Some (JStr t)) = Ok True
    \<and> validateSessionProject P projectId session = Ok True"
proof -
  have "decodeJwtPayload P (Some (JStr t)) = Ok (JObj claims)"
    using assms(1-3) by (rule decodeJwtPayload_parsed)
  then have "tenant_claim P t = None"
    using assms(4-6) by (cases v) (simp_all add: tenant_claim_def)
  then show ?thesis
    using assms(7)
    by (simp add: getProjectIdFromToken_claim getProjectIdFromToken_app_claim
        validateProjectId_def validateSessionProject_def)
qed

theorem nonstring_claim_fails_open_witness:
  "getProjectIdFromToken example_platform
       (Some (JStr ''h.eyJhcHBfbWV0YWRhdGEiOnsicHJvamVjdF9pZCI6NDJ9fQ.s'')) = Ok None
   \<and> getProjectIdFromToken_app example_platform
       (Some (JStr ''h.eyJhcHBfbWV0YWRhdGEiOnsicHJvamVjdF9pZCI6NDJ9fQ.s'')) = Ok None
   \<and> validateProjectId example_platform (Some ''acme'')
       (Some (JStr ''h.eyJhcHBfbWV0YWRhdGEiOnsicHJvamVjdF9pZCI6NDJ9fQ.s'')) = Ok True
   \<and> validateSessionProject example_platform ''acme''
       (Some (JObj [(''accessToken'',
          JStr ''h.eyJhcHBfbWV0YWRhdGEiOnsicHJvamVjdF9pZCI6NDJ9fQ.s'')])) = Ok True"
  using
    nonstring_claim_fails_open [where P = example_platform
      and t = "''h.eyJhcHBfbWV0YWRhdGEiOnsicHJvamVjdF9pZCI6NDJ9fQ.s''"
      and h = "''h''" and m = "''eyJhcHBfbWV0YWRhdGEiOnsicHJvamVjdF9pZCI6NDJ9fQ''"
      and s = "''s''"
      and decoded = \<open>''{"app_metadata":{"project_id":42}}''\<close>
      and claims = "[(''app_metadata'', JObj [(''project_id'', JNum 42)])]"
      and metadata = "[(''project_id'', JNum 42)]" and v = "JNum 42"
      and session = "Some (JObj [(''accessToken'',
          JStr ''h.eyJhcHBfbWV0YWRhdGEiOnsicHJvamVjdF9pZCI6NDJ9fQ.s'')])"
      and expected = "Some ''acme''" and projectId = "''acme''"]
  by (simp add: example_defs replace_all_def)

section \<open>Session store: properties\<close>

lemma clearStoredSession_no_window: "\<not> window_defined w \<Longrightarrow> clearStoredSession w = w"
  by (simp add: clearStoredSession_def)

lemma clearStoredSession_blocked: "ls_blocked w \<Longrightarrow> clearStoredSession w = w"
  by (simp add: clearStoredSession_def removeItem_def)

lemma clearStoredSession_open:
  "window_defined w \<Longrightarrow> \<not> ls_blocked w \<Longrightarrow>
   clearStoredSession w =
     w\<lparr>ls_items := (ls_items w)(SESSION := None, ACCESS_TOKEN := None, REFRESH_TOKEN := None)\<rparr>"
  by (simp add: clearStoredSession_def removeItem_def)

lemma clearStoredSession_flags [simp]:
  "window_defined (clearStoredSession w) = window_defined w"
  "ls_blocked (clearStoredSession w) = ls_blocked w"
  "sent (clearStoredSession w) = sent w"
  by (cases "window_defined w"; cases "ls_blocked w";
      simp add: clearStoredSession_no_window clearStoredSession_blocked clearStoredSession_open)+

lemma clearStoredSession_items:
  "window_defined w \<Longrightarrow> \<not> ls_blocked w \<Longrightarrow>
   ls_items (clearStoredSession w) SESSION = None
   \<and> ls_items (clearStoredSession w) ACCESS_TOKEN = None
   \<and> ls_items (clearStoredSession w) REFRESH_TOKEN = None"
  by (simp add: clearStoredSession_open)


lemma getStoredSession_blocked:
  "ls_blocked w \<Longrightarrow> getStoredSession P w = (JNull, w)"
  by (simp add: getStoredSession_def getStoredSession_try_def getItem_def)





lemma fetch_flags [simp]:
  "window_defined (snd (fetch r w)) = window_defined w"
  "ls_blocked (snd (fetch r w)) = ls_blocked w"
  "ls_items (snd (fetch r w)) = ls_items w"
  "sent (snd (fetch r w)) = sent w @ [r]"
  by (simp_all add: fetch_def)











lemma example_store:
  "storeSession example_platform example_session example_world =
     example_world\<lparr>ls_items :=
        [SESSION \<mapsto> example_session_text,
         ACCESS_TOKEN \<mapsto> ''h.eyJhcHBfbWV0YWRhdGEiOnsicHJvamVjdF9pZCI6ImFjbWUifX0.s'',
         REFRESH_TOKEN \<mapsto> ''r1'']\<rparr>"
  by (simp add: storeSession_def setItem_def js_to_string_def example_platform_def
      example_stringify_def example_world_def example_session_def)





lemma storeSession_stored:
  assumes "window_defined w" and "\<not> ls_blocked w" and "\<not> ls_full w"
  shows "ls_items (storeSession P s w) SESSION = Some (JSON_stringify P s)"
    and "window_defined (storeSession P s w)"
    and "\<not> ls_blocked (storeSession P s w)"
  using assms
  by (simp_all add: storeSession_def setItem_def SESSION_def ACCESS_TOKEN_def
      REFRESH_TOKEN_def split: res.splits)

lemma getStoredSession_valid:
  assumes "window_defined w" and "\<not> ls_blocked w"
    and "ls_items w SESSION = Some stored" and "stored \<noteq> []"
    and "JSON_parse P stored = Ok s"
    and "\<not> js_lt (date_time P (get_prop s ''expiresAt'')) (Some (now w))"
  shows "getStoredSession P w = (s, w)"
  using assms
  by (cases s)
     (simp_all add: getStoredSession_def getStoredSession_try_def getItem_def nonempty_def)

lemma getStoredSession_expired:
  assumes "window_defined w" and "\<not> ls_blocked w"
    and "ls_items w SESSION = Some stored" and "stored \<noteq> []"
    and "JSON_parse P stored = Ok s" and "s \<noteq> JNull"
    and "js_lt (date_time P (get_prop s ''expiresAt'')) (Some (now w))"
  shows "getStoredSession P w = (JNull, clearStoredSession w)"
  using assms
  by (cases s)
     (simp_all add: getStoredSession_def getStoredSession_try_def getItem_def nonempty_def)

lemma getStoredSession_corrupted:
  assumes "window_defined w" and "\<not> ls_blocked w"
    and "ls_items w SESSION = Some blob" and "JSON_parse P blob = Throw e"
  shows "getStoredSession P w = (JNull, w)"
  using assms
  by (simp add: getStoredSession_def getStoredSession_try_def getItem_def nonempty_def)

lemma no_session_interface:
  assumes "getStoredSession P w = (JNull, w)"
  shows "isAuthenticated_service P w = (False, w)" and "getAccessToken P w = (JNull, w)"
  using assms by (simp_all add: isAuthenticated_service_def getAccessToken_def)

text \<open>
  Claim C9. A stored session entry that is not JSON, and a store that cannot be read,
  both make the load return \<^verbatim>\<open>null\<close>: the exception stays inside \<^verbatim>\<open>getStoredSession\<close>,
  nothing is changed, \<^verbatim>\<open>isAuthenticated()\<close> is false and \<^verbatim>\<open>getAccessToken()\<close> is \<^verbatim>\<open>null\<close>.
\<close>

theorem corrupted_store_is_no_session:
  "(window_defined w \<and> \<not> ls_blocked w \<and> ls_items w SESSION = Some blob
      \<and> JSON_parse P blob = Throw e \<longrightarrow>
        (blob \<noteq> [] \<longrightarrow> fst (getStoredSession_try P w) = Throw e)
        \<and> getStoredSession P w = (JNull, w)
        \<and> isAuthenticated_service P w = (False, w)
        \<and> getAccessToken P w = (JNull, w))
   \<and> (ls_blocked w \<longrightarrow>
        (\<exists>e'. getItem SESSION w = Throw e')
        \<and> getStoredSession P w = (JNull, w)
        \<and> isAuthenticated_service P w = (False, w)
        \<and> getAccessToken P w = (JNull, w))"
proof (intro conjI impI)
  assume a: "window_defined w \<and> \<not> ls_blocked w \<and> ls_items w SESSION = Some blob
      \<and> JSON_parse P blob = Throw e"
  then show g: "getStoredSession P w = (JNull, w)"
    by (simp add: getStoredSession_corrupted)
  from g show "isAuthenticated_service P w = (False, w)" and "getAccessToken P w = (JNull, w)"
    by (rule no_session_interface)+
  show "fst (getStoredSession_try P w) = Throw e" if "blob \<noteq> []"
    using a that by (simp add: getStoredSession_try_def getItem_def nonempty_def)
next
  assume b: "ls_blocked w"
  then show "\<exists>e'. getItem SESSION w = Throw e'"
    by (simp add: getItem_def)
  from b show g: "getStoredSession P w = (JNull, w)"
    by (rule getStoredSession_blocked)
  from g show "isAuthenticated_service P w = (False, w)" and "getAccessToken P w = (JNull, w)"
    by (rule no_session_interface)+
qed

theorem corrupted_store_is_no_session_witness:
  "getStoredSession example_platform (example_world\<lparr>ls_items := [SESSION \<mapsto> ''not json'']\<rparr>)
     = (JNull, example_world\<lparr>ls_items := [SESSION \<mapsto> ''not json'']\<rparr>)
   \<and> isAuthenticated_service example_platform
       (example_world\<lparr>ls_items := [SESSION \<mapsto> ''not json'']\<rparr>)
     = (False, example_world\<lparr>ls_items := [SESSION \<mapsto> ''not json'']\<rparr>)
   \<and> getAccessToken example_platform (example_world\<lparr>ls_items := [SESSION \<mapsto> ''not json'']\<rparr>)
     = (JNull, example_world\<lparr>ls_items := [SESSION \<mapsto> ''not json'']\<rparr>)
   \<and> getStoredSession example_platform (example_world\<lparr>ls_blocked := True\<rparr>)
     = (JNull, example_world\<lparr>ls_blocked := True\<rparr>)
   \<and> isAuthenticated_service example_platform (example_world\<lparr>ls_blocked := True\<rparr>)
     = (False, example_world\<lparr>ls_blocked := True\<rparr>)
   \<and> getAccessToken example_platform (example_world\<lparr>ls_blocked := True\<rparr>)
     = (JNull, example_world\<lparr>ls_blocked := True\<rparr>)"
proof -
  let ?w = "example_world\<lparr>ls_items := [SESSION \<mapsto> ''not json'']\<rparr>"
  have h1: "window_defined ?w \<and> \<not> ls_blocked ?w \<and> ls_items ?w SESSION = Some ''not json''
      \<and> JSON_parse example_platform ''not json''
          = Throw (JsError ''SyntaxError'' ''Unexpected token'')"
    by (simp add: example_world_def example_platform_def example_parse_def
        example_session_text_def)
  have h2: "ls_blocked (example_world\<lparr>ls_blocked := True\<rparr>)"
    by simp
  show ?thesis
    using h1 h2
      corrupted_store_is_no_session [where P = example_platform and w = ?w
        and blob = "''not json''" and e = "JsError ''SyntaxError'' ''Unexpected token''"]
      corrupted_store_is_no_session [where P = example_platform
        and w = "example_world\<lparr>ls_blocked := True\<rparr>"]
    by blast
qed

text \<open>
  Claim C7. In a browser whose store accepts the write, and for a session that the
  platform's JSON functions write and read back unchanged, a load that finds the store
  as \<^verbatim>\<open>storeSession\<close> left it, at whatever later time, gives back the very session as
  long as its \<^verbatim>\<open>expiresAt\<close> is not before the time of the load; and a load that finds a
  stored session whose \<^verbatim>\<open>expiresAt\<close> is before the time of the load removes the three
  entries and returns \<^verbatim>\<open>null\<close>.
\<close>

theorem store_then_load:
  assumes "window_defined w" and "\<not> ls_blocked w" and "\<not> ls_full w"
    and "JSON_stringify P s \<noteq> []" and "JSON_parse P (JSON_stringify P s) = Ok s"
    and "window_defined w'" and "\<not> ls_blocked w'"
    and "ls_items w' = ls_items (storeSession P s w)"
  shows "(\<not> js_lt (date_time P (get_prop s ''expiresAt'')) (Some (now w')) \<longrightarrow>
            getStoredSession P w' = (s, w'))
    \<and> (s \<noteq> JNull \<and> js_lt (date_time P (get_prop s ''expiresAt'')) (Some (now w')) \<longrightarrow>
            getStoredSession P w' = (JNull, clearStoredSession w'))
    \<and> (window_defined v \<and> \<not> ls_blocked v \<and> ls_items v SESSION = Some stored
         \<and> stored \<noteq> [] \<and> JSON_parse P stored = Ok stored_session \<and> stored_session \<noteq> JNull
         \<and> js_lt (date_time P (get_prop stored_session ''expiresAt'')) (Some (now v)) \<longrightarrow>
            getStoredSession P v = (JNull, clearStoredSession v)
            \<and> ls_items (clearStoredSession v) SESSION = None
            \<and> ls_items (clearStoredSession v) ACCESS_TOKEN = None
            \<and> ls_items (clearStoredSession v) REFRESH_TOKEN = None)"
proof -
  have w': "ls_items w' SESSION = Some (JSON_stringify P s)"
    using assms(1-3) by (simp add: assms(8) storeSession_stored)
  show ?thesis
    using w' assms(4-7)
    by (auto simp: getStoredSession_valid getStoredSession_expired clearStoredSession_items)
qed

theorem store_then_load_witness:
  "getStoredSession example_platform
      ((storeSession example_platform example_session example_world)
         \<lparr>time_at := (\<lambda>n. 1700000000000)\<rparr>)
     = (example_session,
        (storeSession example_platform example_session example_world)
          \<lparr>time_at := (\<lambda>n. 1700000000000)\<rparr>)
   \<and> fst (getStoredSession example_platform
      ((storeSession example_platform example_session example_world)
         \<lparr>time_at := (\<lambda>n. 1893456000001)\<rparr>)) = JNull
   \<and> ls_items (snd (getStoredSession example_platform
      ((storeSession example_platform example_session example_world)
         \<lparr>time_at := (\<lambda>n. 1893456000001)\<rparr>))) SESSION = None"
proof -
  let ?early = "(storeSession example_platform example_session example_world)
         \<lparr>time_at := (\<lambda>n. 1700000000000)\<rparr>"
  let ?late = "(storeSession example_platform example_session example_world)
         \<lparr>time_at := (\<lambda>n. 1893456000001)\<rparr>"
  have env: "window_defined example_world" "\<not> ls_blocked example_world"
    "\<not> ls_full example_world"
    by (simp_all add: example_world_def)
  have json: "JSON_stringify example_platform example_session \<noteq> []"
    "JSON_parse example_platform (JSON_stringify example_platform example_session)
       = Ok example_session"
    by (simp_all add: example_platform_def example_stringify_def example_parse_def
        example_session_text_def)
  have expiry: "date_time example_platform (get_prop example_session ''expiresAt'')
      = Some 1893456000000"
    by (simp add: example_platform_def example_date_time_def example_session_def)
  have early: "\<not> js_lt (date_time example_platform (get_prop example_session ''expiresAt''))
      (Some (now ?early))"
    unfolding expiry by (simp add: js_lt_def now_def)
  have late: "example_session \<noteq> JNull
      \<and> js_lt (date_time example_platform (get_prop example_session ''expiresAt''))
      (Some (now ?late))"
    unfolding expiry by (simp add: js_lt_def now_def example_session_def)
  have flags: "window_defined ?late \<and> \<not> ls_blocked ?late"
    "window_defined ?early \<and> \<not> ls_blocked ?early"
    unfolding example_store by (simp_all add: example_world_def)
  show ?thesis
    using early late flags
      store_then_load [OF env json, where w' = ?early]
      store_then_load [OF env json, where w' = ?late]
    by (simp add: clearStoredSession_items)
qed

section \<open>Request client: the token cache\<close>











section \<open>Request client: retry on 401\<close>

lemma request_401:
  assumes "\<not> skips_auth options"
    and "getValidToken P c w = (Ok token, c1, w1)"
    and "fetch (client_request P (request_url baseUrl path) m
           (with_bearer P token (request_headers options)) body True) w1
           = (Responded 401 (Ok data), w2)"
  shows "request P baseUrl m path body options c w =
           retry_after_401 P (request_url baseUrl path) m
             (with_bearer P token (request_headers options)) body c1 w2"
  using assms by (simp add: request_def Let_def)

lemma request_app_401:
  assumes "\<not> skips_auth options"
    and "getValidToken_app P sb c w = (Ok token, c1, w1)"
    and "fetch (client_request P (request_url baseUrl path) m
           (with_bearer P token (request_headers options)) body True) w1
           = (Responded 401 (Ok data), w2)"
  shows "request_app P sb baseUrl m path body options c w =
           retry_after_401_app P sb (request_url baseUrl path) m
             (with_bearer P token (request_headers options)) body w2"
  using assms by (simp add: request_app_def Let_def)

lemma example_session_facts:
  "truthy example_session"
  "get_prop example_session ''accessToken'' = Some (JStr example_token)"
  "date_time example_platform (get_prop example_session ''expiresAt'') = Some 1893456000000"
  "JSON_parse example_platform example_session_text = Ok example_session"
  "example_session_text \<noteq> []"
  by (simp_all add: example_session_def example_platform_def example_date_time_def
      example_parse_def example_session_text_def example_token_def)

lemma example_getValidToken:
  assumes "window_defined w" and "\<not> ls_blocked w"
    and "ls_items w SESSION = Some example_session_text" and "now w = 1700000000000"
  shows "getValidToken example_platform \<lparr>cachedToken = None, tokenExpiry = None\<rparr> w =
    (Ok (Some (JStr example_token)),
     \<lparr>cachedToken = Some (JStr example_token), tokenExpiry = Some 1893456000000\<rparr>, w)"
proof -
  have "getStoredSession example_platform w = (example_session, w)"
    using assms example_session_facts
    by (intro getStoredSession_valid [where stored = example_session_text])
       (simp_all add: js_lt_def)
  then have "getSession example_platform w = (example_session, w)"
    using assms(4) example_session_facts by (simp add: getSession_def js_lt_def)
  then show ?thesis
    using example_session_facts by (simp add: getValidToken_def cache_usable_def)
qed

lemma example_headers:
  "with_bearer example_platform (Some (JStr t)) (request_headers example_options) =
     [(''Content-Type'', ''application/json''), (''Authorization'', ''Bearer '' @ t)]"
  "with_bearer example_platform (Some (JStr u))
     [(''Content-Type'', ''application/json''), (''Authorization'', ''Bearer '' @ t)] =
     [(''Content-Type'', ''application/json''), (''Authorization'', ''Bearer '' @ u)]"
  by (simp_all add: with_bearer_def request_headers_def example_options_def assign_def
      property_order_def is_index_def js_to_string_def)

lemma example_calls:
  "client_request example_platform ''/api/products'' ''GET''
     [(''Content-Type'', ''application/json''), (''Authorization'', ''Bearer '' @ t)] None s
   = example_call t s"
  "request_url [] ''/api/products'' = ''/api/products''"
  by (simp_all add: client_request_def request_url_def startsWith_def example_call_def)

lemma example_not_skipped: "\<not> skips_auth example_options"
  by (simp add: skips_auth_def example_options_def)

text \<open>
  The SDK client on the example store, up to the first answer: the token of the stored
  session goes out, and when the answer is a 401 with a JSON body the token that
  \<^verbatim>\<open>getValidToken\<close> gives after \<^verbatim>\<open>clearTokenCache\<close> is that of the stored session again.
\<close>

lemma example_sdk_first:
  assumes "w = (storeSession example_platform example_session example_world)\<lparr>backend := b\<rparr>"
  shows "getValidToken example_platform \<lparr>cachedToken = None, tokenExpiry = None\<rparr> w =
      (Ok (Some (JStr example_token)),
       \<lparr>cachedToken = Some (JStr example_token), tokenExpiry = Some 1893456000000\<rparr>, w)"
    and "fetch (example_call example_token True) w =
      (b [] (example_call example_token True), w\<lparr>sent := [example_call example_token True]\<rparr>)"
    and "getValidToken example_platform (clearTokenCache c)
        (w\<lparr>sent := [example_call example_token True]\<rparr>) =
      (Ok (Some (JStr example_token)),
       \<lparr>cachedToken = Some (JStr example_token), tokenExpiry = Some 1893456000000\<rparr>,
       w\<lparr>sent := [example_call example_token True]\<rparr>)"
    and "fetch (example_call example_token False)
        (w\<lparr>sent := [example_call example_token True]\<rparr>) =
      (b [example_call example_token True] (example_call example_token False),
       w\<lparr>sent := [example_call example_token True, example_call example_token False]\<rparr>)"
proof -
  have w0: "window_defined w" "\<not> ls_blocked w"
    "ls_items w SESSION = Some example_session_text" "sent w = []" "backend w = b"
    "time_at w = (\<lambda>n. 1700000000000)"
    unfolding assms example_store
    by (simp_all add: example_world_def SESSION_def ACCESS_TOKEN_def REFRESH_TOKEN_def)
  show "getValidToken example_platform \<lparr>cachedToken = None, tokenExpiry = None\<rparr> w =
      (Ok (Some (JStr example_token)),
       \<lparr>cachedToken = Some (JStr example_token), tokenExpiry = Some 1893456000000\<rparr>, w)"
    using w0 by (intro example_getValidToken) (simp_all add: now_def)
  show "fetch (example_call example_token True) w =
      (b [] (example_call example_token True), w\<lparr>sent := [example_call example_token True]\<rparr>)"
    using w0 by (simp add: fetch_def)
  show "getValidToken example_platform (clearTokenCache c)
        (w\<lparr>sent := [example_call example_token True]\<rparr>) =
      (Ok (Some (JStr example_token)),
       \<lparr>cachedToken = Some (JStr example_token), tokenExpiry = Some 1893456000000\<rparr>,
       w\<lparr>sent := [example_call example_token True]\<rparr>)"
    unfolding clearTokenCache_def
    using w0 by (intro example_getValidToken) (simp_all add: now_def)
  show "fetch (example_call example_token False)
        (w\<lparr>sent := [example_call example_token True]\<rparr>) =
      (b [example_call example_token True] (example_call example_token False),
       w\<lparr>sent := [example_call example_token True, example_call example_token False]\<rparr>)"
    using w0 by (simp add: fetch_def)
qed

lemma example_sdk_retry:
  assumes w: "w = (storeSession example_platform example_session example_world)\<lparr>backend := b\<rparr>"
    and b1: "b [] (example_call example_token True) = Responded 401 (Ok data)"
  shows "request example_platform [] ''GET'' ''/api/products'' None example_options
       \<lparr>cachedToken = None, tokenExpiry = None\<rparr> w =
     retry_after_401 example_platform ''/api/products'' ''GET''
       [(''Content-Type'', ''application/json''),
        (''Authorization'', ''Bearer '' @ example_token)] None
       \<lparr>cachedToken = Some (JStr example_token), tokenExpiry = Some 1893456000000\<rparr>
       (w\<lparr>sent := [example_call example_token True]\<rparr>)"
proof -
  have f: "fetch (client_request example_platform (request_url [] ''/api/products'') ''GET''
        (with_bearer example_platform (Some (JStr example_token))
           (request_headers example_options)) None True) w
      = (Responded 401 (Ok data), w\<lparr>sent := [example_call example_token True]\<rparr>)"
    unfolding example_headers example_calls example_sdk_first(2) [OF w] b1 ..
  show ?thesis
    using request_401 [OF example_not_skipped example_sdk_first(1) [OF w] f]
    unfolding example_headers example_calls .
qed

lemma example_sdk_retried:
  assumes w: "w = (storeSession example_platform example_session example_world)\<lparr>backend := b\<rparr>"
    and b1: "b [] (example_call example_token True) = Responded 401 (Ok data)"
    and b2: "b [example_call example_token True] (example_call example_token False)
               = Responded status (Ok retryData)"
  shows "request example_platform [] ''GET'' ''/api/products'' None example_options
       \<lparr>cachedToken = None, tokenExpiry = None\<rparr> w =
     ((if \<not> response_ok status
       then (case error_text retryData ''Request failed'' of
               Throw e \<Rightarrow> failure ''Authentication failed after retry''
             | Ok err \<Rightarrow> failure_with err retryData)
       else success_with retryData),
      \<lparr>cachedToken = Some (JStr example_token), tokenExpiry = Some 1893456000000\<rparr>,
      w\<lparr>sent := [example_call example_token True, example_call example_token False]\<rparr>)"
  unfolding example_sdk_retry [OF w b1] retry_after_401_def example_sdk_first(3) [OF w]
    prod.case res.case Let_def example_headers example_calls example_sdk_first(4) [OF w] b2
    fetch_result.case
  by (simp split: res.splits)

lemma sdk_same_token:
  "request example_platform [] ''GET'' ''/api/products'' None example_options
       \<lparr>cachedToken = None, tokenExpiry = None\<rparr>
       ((storeSession example_platform example_session example_world)
          \<lparr>backend := example_401_backend\<rparr>)
     = (JObj [(''success'', JBool False), (''error'', JStr ''Unauthorized'')],
        \<lparr>cachedToken = Some (JStr example_token), tokenExpiry = Some 1893456000000\<rparr>,
        (storeSession example_platform example_session example_world)
          \<lparr>backend := example_401_backend,
           sent := [example_call example_token True, example_call example_token False]\<rparr>)"
  by (subst example_sdk_retried [OF refl, where status = 401
        and data = "JObj [(''error'', JStr ''Unauthorized'')]"
        and retryData = "JObj [(''error'', JStr ''Unauthorized'')]"])
     (simp_all add: example_401_backend_def response_ok_def error_text_def failure_with_def
        assign_def property_order_def is_index_def)

lemma sdk_spread_success:
  "request example_platform [] ''GET'' ''/api/products'' None example_options
       \<lparr>cachedToken = None, tokenExpiry = None\<rparr>
       ((storeSession example_platform example_session example_world)
          \<lparr>backend := example_500_backend\<rparr>)
     = (JObj [(''success'', JBool True), (''error'', JStr ''Request failed'')],
        \<lparr>cachedToken = Some (JStr example_token), tokenExpiry = Some 1893456000000\<rparr>,
        (storeSession example_platform example_session example_world)
          \<lparr>backend := example_500_backend,
           sent := [example_call example_token True, example_call example_token False]\<rparr>)"
  by (subst example_sdk_retried [OF refl, where status = 500
        and data = "JObj [(''error'', JStr ''Unauthorized'')]"
        and retryData = "JObj [(''success'', JBool True)]"])
     (simp_all add: example_500_backend_def response_ok_def error_text_def failure_with_def
        assign_def property_order_def is_index_def)

lemma sdk_text_401:
  "request example_platform [] ''GET'' ''/api/products'' None example_options
       \<lparr>cachedToken = None, tokenExpiry = None\<rparr>
       ((storeSession example_platform example_session example_world)
          \<lparr>backend := example_text_401_backend\<rparr>)
     = (failure ''Unexpected token U in JSON at position 0'',
        \<lparr>cachedToken = Some (JStr example_token), tokenExpiry = Some 1893456000000\<rparr>,
        (storeSession example_platform example_session example_world)
          \<lparr>backend := example_text_401_backend,
           sent := [example_call example_token True]\<rparr>)"
proof -
  have skip: "skips_auth example_options = False"
    by (simp add: example_not_skipped)
  show ?thesis
    unfolding request_def Let_def skip if_False example_calls example_sdk_first(1) [OF refl]
      prod.case res.case example_headers example_sdk_first(2) [OF refl]
    by (simp add: example_text_401_backend_def request_failed_def)
qed

lemma app_fresh_token:
  "request_app example_platform example_supabase [] ''GET'' ''/api/products'' None
       example_options \<lparr>app_cachedToken = None, app_tokenExpiry = None\<rparr>
       (example_world\<lparr>backend := example_401_backend\<rparr>)
     = (JObj [(''success'', JBool False), (''error'', JStr ''Unauthorized'')],
        \<lparr>app_cachedToken = Some (JStr ''s2''), app_tokenExpiry = Some 1893456000000\<rparr>,
        example_world\<lparr>backend := example_401_backend,
           sent := [example_call ''s1'' True, example_call ''s2'' False]\<rparr>)"
proof -
  let ?w = "example_world\<lparr>backend := example_401_backend\<rparr>"
  let ?ca = "\<lparr>app_cachedToken = None, app_tokenExpiry = None\<rparr>"
  let ?ca1 = "\<lparr>app_cachedToken = Some (JStr ''s1''), app_tokenExpiry = Some 1893456000000\<rparr>"
  let ?w2 = "?w\<lparr>sent := [example_call ''s1'' True]\<rparr>"
  have g: "getValidToken_app example_platform example_supabase ?ca ?w
      = (Ok (Some (JStr ''s1'')), ?ca1, ?w)"
    by (simp add: getValidToken_app_def cache_usable_app_def example_supabase_def
        expiry_ms_def js_times_def num_truthy_def EXPIRY_BUFFER_def now_def
        example_world_def Let_def)
  have f: "fetch (client_request example_platform (request_url [] ''/api/products'') ''GET''
        (with_bearer example_platform (Some (JStr ''s1''))
           (request_headers example_options)) None True) ?w
      = (Responded 401 (Ok (JObj [(''error'', JStr ''Unauthorized'')])), ?w2)"
    unfolding example_headers example_calls
    by (simp add: fetch_def example_world_def example_401_backend_def)
  have r: "request_app example_platform example_supabase [] ''GET'' ''/api/products'' None
       example_options ?ca ?w =
     retry_after_401_app example_platform example_supabase ''/api/products'' ''GET''
       [(''Content-Type'', ''application/json''), (''Authorization'', ''Bearer '' @ ''s1'')]
       None ?w2"
    using request_app_401 [OF example_not_skipped g f]
    unfolding example_headers example_calls .
  have s: "sb_refreshSession example_supabase w =
      (Ok (JObj [(''access_token'', JStr ''s2''), (''expires_at'', JNum 1893456000)], False), w)"
    for w
    by (simp add: example_supabase_def)
  have p: "get_prop (JObj [(''access_token'', JStr ''s2''), (''expires_at'', JNum 1893456000)])
      ''access_token'' = Some (JStr ''s2'')"
    by simp
  show ?thesis
    unfolding r retry_after_401_app_def Let_def s prod.case res.case p example_headers
      example_calls
    by (simp add: fetch_def example_world_def example_401_backend_def settle_def
        error_text_def failure_app_def response_ok_def expiry_ms_def js_times_def
        num_truthy_def)
qed

text \<open>
  Claim C1, at an input where the code departs from it. The SDK client is run with an
  empty token cache on a store that holds a session years away from its expiry, against
  a backend that answers every request with 401 and a JSON body. The request goes out
  twice, and the second time under the same bearer token as the first: after
  \<^verbatim>\<open>clearTokenCache()\<close>, \<^verbatim>\<open>getValidToken()\<close> reads the stored session again and takes its
  token, the one that has just been rejected. No other request is sent, so nothing is
  refreshed; the result is the failure, and the rejected token is back in the cache.

  On the same store, with a backend whose 401 carries the text \<^verbatim>\<open>Unauthorized\<close>, the body
  is read before the status is looked at: one request, no second one, and the rejected
  token stays in the cache. With a backend that answers the second request with 500
  and a body that carries \<^verbatim>\<open>success: true\<close>, the result carries \<^verbatim>\<open>success: true\<close>, since the
  body is spread after the \<^verbatim>\<open>success\<close> of the literal. The application's client, run
  against the backend that always answers 401, sends its second request under the
  token of the session it has had refreshed.
\<close>

theorem sdk_retry_resends_rejected_token:
  "request example_platform [] ''GET'' ''/api/products'' None example_options
       \<lparr>cachedToken = None, tokenExpiry = None\<rparr>
       ((storeSession example_platform example_session example_world)
          \<lparr>backend := example_401_backend\<rparr>)
     = (JObj [(''success'', JBool False), (''error'', JStr ''Unauthorized'')],
        \<lparr>cachedToken = Some (JStr example_token), tokenExpiry = Some 1893456000000\<rparr>,
        (storeSession example_platform example_session example_world)
          \<lparr>backend := example_401_backend,
           sent := [example_call example_token True, example_call example_token False]\<rparr>)
   \<and> request example_platform [] ''GET'' ''/api/products'' None example_options
       \<lparr>cachedToken = None, tokenExpiry = None\<rparr>
       ((storeSession example_platform example_session example_world)
          \<lparr>backend := example_text_401_backend\<rparr>)
     = (failure ''Unexpected token U in JSON at position 0'',
        \<lparr>cachedToken = Some (JStr example_token), tokenExpiry = Some 1893456000000\<rparr>,
        (storeSession example_platform example_session example_world)
          \<lparr>backend := example_text_401_backend,
           sent := [example_call example_token True]\<rparr>)
   \<and> request example_platform [] ''GET'' ''/api/products'' None example_options
       \<lparr>cachedToken = None, tokenExpiry = None\<rparr>
       ((storeSession example_platform example_session example_world)
          \<lparr>backend := example_500_backend\<rparr>)
     = (JObj [(''success'', JBool True), (''error'', JStr ''Request failed'')],
        \<lparr>cachedToken = Some (JStr example_token), tokenExpiry = Some 1893456000000\<rparr>,
        (storeSession example_platform example_session example_world)
          \<lparr>backend := example_500_backend,
           sent := [example_call example_token True, example_call example_token False]\<rparr>)
   \<and> request_app example_platform example_supabase [] ''GET'' ''/api/products'' None
       example_options \<lparr>app_cachedToken = None, app_tokenExpiry = None\<rparr>
       (example_world\<lparr>backend := example_401_backend\<rparr>)
     = (JObj [(''success'', JBool False), (''error'', JStr ''Unauthorized'')],
        \<lparr>app_cachedToken = Some (JStr ''s2''), app_tokenExpiry = Some 1893456000000\<rparr>,
        example_world\<lparr>backend := example_401_backend,
           sent := [example_call ''s1'' True, example_call ''s2'' False]\<rparr>)"
  by (intro conjI sdk_same_token sdk_text_401 sdk_spread_success app_fresh_token)

end
